theory Spec2Isabelle
  imports Complex_Main
begin

section \<open>The notebook as a JSON document\<close>

text \<open>
  The repository's source is one file, \<^verbatim>\<open>docs/how_to_guide/04_embedding_networks.ipynb\<close>,
  a Jupyter notebook in nbformat 4: a JSON object with the keys \<^verbatim>\<open>cells\<close>,
  \<^verbatim>\<open>metadata\<close>, \<^verbatim>\<open>nbformat\<close> and \<^verbatim>\<open>nbformat_minor\<close>. The document is embedded
  as the JSON value it denotes. Objects keep the order of their keys, strings hold the
  decoded text (the JSON escape for a line feed is the character \<open>\<newline>\<close>, the escaped
  quotation mark is the quotation mark).
\<close>

datatype json =
    JString string
  | JNumber int
  | JArray "json list"
  | JObject "(string \<times> json) list"

definition cell_1 :: json where
  \<open>cell_1 = JObject [
    (''cell_type'', JString ''markdown''),
    (''metadata'', JObject []),
    (''source'', JArray [
      JString ''# How to use embedding nets for high-dimensional observations''])]\<close>

definition cell_2 :: json where
  \<open>cell_2 = JObject [
    (''cell_type'', JString ''markdown''),
    (''metadata'', JObject []),
    (''source'', JArray [
      JString ''Many simulators return high-dimensional outputs such as time-series or images. To efficiently learn the posterior given such simulation outputs, `sbi` can employ _embedding networks_ which reduce these high-dimensional outputs.\<newline>'',
      JString ''\<newline>'',
      JString ''`sbi` provides pre-configured embedding networks (MLP, CNN, and permutation-invariant networks) or allows to pass custom-written embedding networks.''])]\<close>

definition cell_3 :: json where
  \<open>cell_3 = JObject [
    (''cell_type'', JString ''markdown''),
    (''metadata'', JObject []),
    (''source'', JArray [
      JString ''> Only `NPE` and `NRE` methods can use an `embedding_net` to learn summary statistics from simulation outputs. `NLE` does not offer such functionality because the simulation outputs are also the output of the neural density estimator. ''])]\<close>

definition cell_4 :: json where
  \<open>cell_4 = JObject [
    (''cell_type'', JString ''markdown''),
    (''metadata'', JObject []),
    (''source'', JArray [
      JString ''## Using pre-configured embedding networks''])]\<close>

definition cell_5 :: json where
  \<open>cell_5 = JObject [
    (''cell_type'', JString ''markdown''),
    (''metadata'', JObject []),
    (''source'', JArray [
      JString ''```Python\<newline>'',
      JString ''# import required modules\<newline>'',
      JString ''from sbi.neural_nets import posterior_nn\<newline>'',
      JString ''\<newline>'',
      JString ''# import the different choices of pre-configured embedding networks\<newline>'',
      JString ''from sbi.neural_nets.embedding_nets import (\<newline>'',
      JString ''    FCEmbedding,\<newline>'',
      JString ''    CNNEmbedding,\<newline>'',
      JString ''    PermutationInvariantEmbedding\<newline>'',
      JString '')\<newline>'',
      JString ''\<newline>'',
      JString ''# Choose which type of pre-configured embedding net to use (e.g. CNN)\<newline>'',
      JString ''embedding_net = CNNEmbedding(input_shape=(32, 32))\<newline>'',
      JString ''\<newline>'',
      JString ''# Instantiate the conditional neural density estimator\<newline>'',
      JString ''neural_posterior = posterior_nn(model="maf", embedding_net=embedding_net)\<newline>'',
      JString ''\<newline>'',
      JString ''# Setup the inference procedure with NPE\<newline>'',
      JString ''trainer = NPE(density_estimator=neural_posterior)\<newline>'',
      JString ''# Continue as always...\<newline>'',
      JString ''```''])]\<close>

definition cell_6 :: json where
  \<open>cell_6 = JObject [
    (''cell_type'', JString ''markdown''),
    (''metadata'', JObject []),
    (''source'', JArray [
      JString ''## Defining custom embedding networks\<newline>'',
      JString ''\<newline>'',
      JString ''Alternatively, it is also possible to define custom embedding networks and pass those to neural density estimator. For example, you can implement a custom CNN as follows:''])]\<close>

definition cell_7 :: json where
  \<open>cell_7 = JObject [
    (''cell_type'', JString ''markdown''),
    (''metadata'', JObject []),
    (''source'', JArray [
      JString ''```python\<newline>'',
      JString ''class CustomCNN(nn.Module):\<newline>'',
      JString ''    def __init__(self):\<newline>'',
      JString ''        super().__init__()\<newline>'',
      JString ''        # 2D convolutional layer\<newline>'',
      JString ''        self.conv1 = nn.Conv2d(in_channels=1, out_channels=6, kernel_size=5, padding=2)\<newline>'',
      JString ''        # Maxpool layer that reduces 32x32 image to 4x4\<newline>'',
      JString ''        self.pool = nn.MaxPool2d(kernel_size=8, stride=8)\<newline>'',
      JString ''        # Fully connected layer taking as input the 6 flattened output arrays\<newline>'',
      JString ''        # from the maxpooling layer\<newline>'',
      JString ''        self.fc = nn.Linear(in_features=6 * 4 * 4, out_features=8)\<newline>'',
      JString ''\<newline>'',
      JString ''    def forward(self, x):\<newline>'',
      JString ''        x = x.view(-1, 1, 32, 32)\<newline>'',
      JString ''        x = self.pool(F.relu(self.conv1(x)))\<newline>'',
      JString ''        x = x.view(-1, 6 * 4 * 4)\<newline>'',
      JString ''        x = F.relu(self.fc(x))\<newline>'',
      JString ''        return x\<newline>'',
      JString ''\<newline>'',
      JString ''# instantiate the custom embedding_net\<newline>'',
      JString ''embedding_net_custom = CustomCNN()\<newline>'',
      JString ''\<newline>'',
      JString ''# Instantiate the conditional neural density estimator\<newline>'',
      JString ''neural_posterior = posterior_nn(model="maf", embedding_net=embedding_net_custom)\<newline>'',
      JString ''trainer = NPE(density_estimator=neural_posterior)\<newline>'',
      JString ''# Continue as always...\<newline>'',
      JString ''```''])]\<close>

definition cell_8 :: json where
  \<open>cell_8 = JObject [
    (''cell_type'', JString ''markdown''),
    (''metadata'', JObject []),
    (''source'', JArray [
      JString ''## Example: Inferring parameters from images\<newline>'',
      JString ''\<newline>'',
      JString ''For a full example on using embedding networks (on simulation outputs that are images), see [this tutorial](https://sbi.readthedocs.io/en/latest/advanced_tutorials/04_embedding_networks.html).''])]\<close>

definition notebook_metadata :: json where
  \<open>notebook_metadata = JObject [
    (''kernelspec'', JObject [
      (''display_name'', JString ''Python 3 (ipykernel)''),
      (''language'', JString ''python''),
      (''name'', JString ''python3'')]),
    (''language_info'', JObject [
      (''codemirror_mode'', JObject [
        (''name'', JString ''ipython''),
        (''version'', JNumber 3)]),
      (''file_extension'', JString ''.py''),
      (''mimetype'', JString ''text/x-python''),
      (''name'', JString ''python''),
      (''nbconvert_exporter'', JString ''python''),
      (''pygments_lexer'', JString ''ipython3''),
      (''version'', JString ''3.12.4'')])]\<close>

definition notebook :: json where
  "notebook = JObject [
    (''cells'', JArray [cell_1, cell_2, cell_3, cell_4, cell_5, cell_6, cell_7, cell_8]),
    (''metadata'', notebook_metadata),
    (''nbformat'', JNumber 4),
    (''nbformat_minor'', JNumber 4)]"

subsection \<open>The file's text\<close>

text \<open>
  The lines of the file as it is stored, in order. The file does not end in a line feed:
  its last line is the closing brace. \<open>backslash\<close> is the backslash of a JSON escape.
\<close>

definition backslash :: char where
  "backslash = CHR 0x5C"

definition file_lines :: "string list" where
  \<open>file_lines = [
    ''{'',
    '' "cells": ['',
    ''  {'',
    ''   "cell_type": "markdown",'',
    ''   "metadata": {},'',
    ''   "source": ['',
    ''    "# How to use embedding nets for high-dimensional observations"'',
    ''   ]'',
    ''  },'',
    ''  {'',
    ''   "cell_type": "markdown",'',
    ''   "metadata": {},'',
    ''   "source": ['',
    ''    "Many simulators return high-dimensional outputs such as time-series or images. To efficiently learn the posterior given such simulation outputs, `sbi` can employ _embedding networks_ which reduce these high-dimensional outputs.'' @ [backslash] @ ''n",'',
    ''    "'' @ [backslash] @ ''n",'',
    ''    "`sbi` provides pre-configured embedding networks (MLP, CNN, and permutation-invariant networks) or allows to pass custom-written embedding networks."'',
    ''   ]'',
    ''  },'',
    ''  {'',
    ''   "cell_type": "markdown",'',
    ''   "metadata": {},'',
    ''   "source": ['',
    ''    "> Only `NPE` and `NRE` methods can use an `embedding_net` to learn summary statistics from simulation outputs. `NLE` does not offer such functionality because the simulation outputs are also the output of the neural density estimator. "'',
    ''   ]'',
    ''  },'',
    ''  {'',
    ''   "cell_type": "markdown",'',
    ''   "metadata": {},'',
    ''   "source": ['',
    ''    "## Using pre-configured embedding networks"'',
    ''   ]'',
    ''  },'',
    ''  {'',
    ''   "cell_type": "markdown",'',
    ''   "metadata": {},'',
    ''   "source": ['',
    ''    "```Python'' @ [backslash] @ ''n",'',
    ''    "# import required modules'' @ [backslash] @ ''n",'',
    ''    "from sbi.neural_nets import posterior_nn'' @ [backslash] @ ''n",'',
    ''    "'' @ [backslash] @ ''n",'',
    ''    "# import the different choices of pre-configured embedding networks'' @ [backslash] @ ''n",'',
    ''    "from sbi.neural_nets.embedding_nets import ('' @ [backslash] @ ''n",'',
    ''    "    FCEmbedding,'' @ [backslash] @ ''n",'',
    ''    "    CNNEmbedding,'' @ [backslash] @ ''n",'',
    ''    "    PermutationInvariantEmbedding'' @ [backslash] @ ''n",'',
    ''    ")'' @ [backslash] @ ''n",'',
    ''    "'' @ [backslash] @ ''n",'',
    ''    "# Choose which type of pre-configured embedding net to use (e.g. CNN)'' @ [backslash] @ ''n",'',
    ''    "embedding_net = CNNEmbedding(input_shape=(32, 32))'' @ [backslash] @ ''n",'',
    ''    "'' @ [backslash] @ ''n",'',
    ''    "# Instantiate the conditional neural density estimator'' @ [backslash] @ ''n",'',
    ''    "neural_posterior = posterior_nn(model='' @ [backslash] @ ''"maf'' @ [backslash] @ ''", embedding_net=embedding_net)'' @ [backslash] @ ''n",'',
    ''    "'' @ [backslash] @ ''n",'',
    ''    "# Setup the inference procedure with NPE'' @ [backslash] @ ''n",'',
    ''    "trainer = NPE(density_estimator=neural_posterior)'' @ [backslash] @ ''n",'',
    ''    "# Continue as always...'' @ [backslash] @ ''n",'',
    ''    "```"'',
    ''   ]'',
    ''  },'',
    ''  {'',
    ''   "cell_type": "markdown",'',
    ''   "metadata": {},'',
    ''   "source": ['',
    ''    "## Defining custom embedding networks'' @ [backslash] @ ''n",'',
    ''    "'' @ [backslash] @ ''n",'',
    ''    "Alternatively, it is also possible to define custom embedding networks and pass those to neural density estimator. For example, you can implement a custom CNN as follows:"'',
    ''   ]'',
    ''  },'',
    ''  {'',
    ''   "cell_type": "markdown",'',
    ''   "metadata": {},'',
    ''   "source": ['',
    ''    "```python'' @ [backslash] @ ''n",'',
    ''    "class CustomCNN(nn.Module):'' @ [backslash] @ ''n",'',
    ''    "    def __init__(self):'' @ [backslash] @ ''n",'',
    ''    "        super().__init__()'' @ [backslash] @ ''n",'',
    ''    "        # 2D convolutional layer'' @ [backslash] @ ''n",'',
    ''    "        self.conv1 = nn.Conv2d(in_channels=1, out_channels=6, kernel_size=5, padding=2)'' @ [backslash] @ ''n",'',
    ''    "        # Maxpool layer that reduces 32x32 image to 4x4'' @ [backslash] @ ''n",'',
    ''    "        self.pool = nn.MaxPool2d(kernel_size=8, stride=8)'' @ [backslash] @ ''n",'',
    ''    "        # Fully connected layer taking as input the 6 flattened output arrays'' @ [backslash] @ ''n",'',
    ''    "        # from the maxpooling layer'' @ [backslash] @ ''n",'',
    ''    "        self.fc = nn.Linear(in_features=6 * 4 * 4, out_features=8)'' @ [backslash] @ ''n",'',
    ''    "'' @ [backslash] @ ''n",'',
    ''    "    def forward(self, x):'' @ [backslash] @ ''n",'',
    ''    "        x = x.view(-1, 1, 32, 32)'' @ [backslash] @ ''n",'',
    ''    "        x = self.pool(F.relu(self.conv1(x)))'' @ [backslash] @ ''n",'',
    ''    "        x = x.view(-1, 6 * 4 * 4)'' @ [backslash] @ ''n",'',
    ''    "        x = F.relu(self.fc(x))'' @ [backslash] @ ''n",'',
    ''    "        return x'' @ [backslash] @ ''n",'',
    ''    "'' @ [backslash] @ ''n",'',
    ''    "# instantiate the custom embedding_net'' @ [backslash] @ ''n",'',
    ''    "embedding_net_custom = CustomCNN()'' @ [backslash] @ ''n",'',
    ''    "'' @ [backslash] @ ''n",'',
    ''    "# Instantiate the conditional neural density estimator'' @ [backslash] @ ''n",'',
    ''    "neural_posterior = posterior_nn(model='' @ [backslash] @ ''"maf'' @ [backslash] @ ''", embedding_net=embedding_net_custom)'' @ [backslash] @ ''n",'',
    ''    "trainer = NPE(density_estimator=neural_posterior)'' @ [backslash] @ ''n",'',
    ''    "# Continue as always...'' @ [backslash] @ ''n",'',
    ''    "```"'',
    ''   ]'',
    ''  },'',
    ''  {'',
    ''   "cell_type": "markdown",'',
    ''   "metadata": {},'',
    ''   "source": ['',
    ''    "## Example: Inferring parameters from images'' @ [backslash] @ ''n",'',
    ''    "'' @ [backslash] @ ''n",'',
    ''    "For a full example on using embedding networks (on simulation outputs that are images), see [this tutorial](https://sbi.readthedocs.io/en/latest/advanced_tutorials/04_embedding_networks.html)."'',
    ''   ]'',
    ''  }'',
    '' ],'',
    '' "metadata": {'',
    ''  "kernelspec": {'',
    ''   "display_name": "Python 3 (ipykernel)",'',
    ''   "language": "python",'',
    ''   "name": "python3"'',
    ''  },'',
    ''  "language_info": {'',
    ''   "codemirror_mode": {'',
    ''    "name": "ipython",'',
    ''    "version": 3'',
    ''   },'',
    ''   "file_extension": ".py",'',
    ''   "mimetype": "text/x-python",'',
    ''   "name": "python",'',
    ''   "nbconvert_exporter": "python",'',
    ''   "pygments_lexer": "ipython3",'',
    ''   "version": "3.12.4"'',
    ''  }'',
    '' },'',
    '' "nbformat": 4,'',
    '' "nbformat_minor": 4'',
    ''}'']\<close>

text \<open>
  nbformat writes a notebook with one space of indentation per level, an item per line
  and the empty object inline. \<open>json_lines\<close> lays a JSON value out that way, so that the
  embedded document can be compared with the stored text.
\<close>

definition jescape :: "string \<Rightarrow> string" where
  "jescape s = concat (map (\<lambda>c.
     if c = CHR 0x22 then [backslash, CHR 0x22]
     else if c = backslash then [backslash, backslash]
     else if c = CHR 0x0A then [backslash, CHR ''n'']
     else [c]) s)"

definition digit_char :: "nat \<Rightarrow> char" where
  "digit_char d = ''0123456789'' ! d"

fun decimal :: "nat \<Rightarrow> string" where
  "decimal n = (if n < 10 then [digit_char n] else decimal (n div 10) @ [digit_char (n mod 10)])"

definition jnumber :: "int \<Rightarrow> string" where
  "jnumber i = (if i < 0 then CHR ''-'' # decimal (nat (- i)) else decimal (nat i))"

text \<open>Prefix the first line of a block, append to its last line.\<close>

fun prefix_first :: "string \<Rightarrow> string list \<Rightarrow> string list" where
  "prefix_first p [] = [p]"
| "prefix_first p (l # ls) = (p @ l) # ls"

fun suffix_last :: "string \<Rightarrow> string list \<Rightarrow> string list" where
  "suffix_last s [] = [s]"
| "suffix_last s [l] = [l @ s]"
| "suffix_last s (l # ls) = l # suffix_last s ls"

fun comma_separated :: "string list list \<Rightarrow> string list" where
  "comma_separated [] = []"
| "comma_separated [b] = b"
| "comma_separated (b # bs) = suffix_last '','' b @ comma_separated bs"

fun json_lines :: "nat \<Rightarrow> json \<Rightarrow> string list"
  and json_items :: "nat \<Rightarrow> json list \<Rightarrow> string list list"
  and json_members :: "nat \<Rightarrow> (string \<times> json) list \<Rightarrow> string list list"
  and json_member :: "nat \<Rightarrow> string \<times> json \<Rightarrow> string list" where
  "json_lines d (JString s) = [[CHR 0x22] @ jescape s @ [CHR 0x22]]"
| "json_lines d (JNumber i) = [jnumber i]"
| "json_lines d (JArray []) = [''[]'']"
| "json_lines d (JArray (x # xs)) =
     [''[''] @ comma_separated (json_items (Suc d) (x # xs)) @ [replicate d CHR '' '' @ '']'']"
| "json_lines d (JObject []) = [''{}'']"
| "json_lines d (JObject (m # ms)) =
     [''{''] @ comma_separated (json_members (Suc d) (m # ms)) @ [replicate d CHR '' '' @ ''}'']"
| "json_items d [] = []"
| "json_items d (x # xs) = prefix_first (replicate d CHR '' '') (json_lines d x) # json_items d xs"
| "json_members d [] = []"
| "json_members d (m # ms) = json_member d m # json_members d ms"
| "json_member d (k, v) =
     prefix_first (replicate d CHR '' '' @ [CHR 0x22] @ jescape k @ [CHR 0x22] @ '': '') (json_lines d v)"


subsection \<open>Reading the document\<close>

fun jlookup :: "string \<Rightarrow> json \<Rightarrow> json option" where
  "jlookup k (JObject kvs) = map_of kvs k"
| "jlookup k _ = None"

fun jkeys :: "json \<Rightarrow> string list" where
  "jkeys (JObject kvs) = map fst kvs"
| "jkeys _ = []"

text \<open>The cells of a notebook, in document order.\<close>

definition cells :: "json \<Rightarrow> json list" where
  "cells nb = (case jlookup ''cells'' nb of Some (JArray cs) \<Rightarrow> cs | _ \<Rightarrow> [])"

definition cell_type :: "json \<Rightarrow> string" where
  "cell_type c = (case jlookup ''cell_type'' c of Some (JString s) \<Rightarrow> s | _ \<Rightarrow> [])"

text \<open>The text of a string, or of a list of strings taken together.\<close>

fun jtext :: "json \<Rightarrow> string" where
  "jtext (JString s) = s"
| "jtext (JArray js) = concat (map jtext js)"
| "jtext _ = []"

text \<open>A code cell is what a kernel would execute; a markdown cell is only rendered.\<close>

definition code_cells :: "json \<Rightarrow> json list" where
  "code_cells nb = filter (\<lambda>c. cell_type c = ''code'') (cells nb)"

section \<open>Searching the text\<close>

text \<open>
  Whether a word occurs in a line is decided on the characters, ignoring letter case:
  a pattern pairs each letter of the word with its capital, and a line mentions the word
  when the pattern matches at some position. The search sees a word wherever it stands:
  in prose, in a code fragment, in a comment, inside a longer word.
\<close>

definition lower_char :: "char \<Rightarrow> char" where
  "lower_char c =
     (case map_of (zip ''ABCDEFGHIJKLMNOPQRSTUVWXYZ'' ''abcdefghijklmnopqrstuvwxyz'') c of
        Some l \<Rightarrow> l | None \<Rightarrow> c)"

definition upper_char :: "char \<Rightarrow> char" where
  "upper_char c =
     (case map_of (zip ''abcdefghijklmnopqrstuvwxyz'' ''ABCDEFGHIJKLMNOPQRSTUVWXYZ'') c of
        Some u \<Rightarrow> u | None \<Rightarrow> c)"

definition ci_pattern :: "string \<Rightarrow> (char \<times> char) list" where
  "ci_pattern w = map (\<lambda>a. (lower_char a, upper_char a)) w"

fun matches_at :: "(char \<times> char) list \<Rightarrow> string \<Rightarrow> bool" where
  "matches_at [] s = True"
| "matches_at (p # ps) [] = False"
| "matches_at (p # ps) (c # s) =
     (if c = fst p then matches_at ps s else if c = snd p then matches_at ps s else False)"

fun occurs :: "(char \<times> char) list \<Rightarrow> string \<Rightarrow> bool" where
  "occurs p [] = (p = [])"
| "occurs p (c # s) = (if matches_at p (c # s) then True else occurs p s)"

fun occurs_any :: "(char \<times> char) list list \<Rightarrow> string \<Rightarrow> bool" where
  "occurs_any [] l = False"
| "occurs_any (p # ps) l = (if occurs p l then True else occurs_any ps l)"

fun lines_with :: "(char \<times> char) list list \<Rightarrow> string list \<Rightarrow> string list" where
  "lines_with ps [] = []"
| "lines_with ps (l # ls) =
     (if occurs_any ps l then l # lines_with ps ls else lines_with ps ls)"

text \<open>The lines that mention at least one of the words.\<close>

definition lines_mentioning :: "string list \<Rightarrow> string list \<Rightarrow> string list" where
  "lines_mentioning ws ls = lines_with (map ci_pattern ws) ls"

section \<open>The code fragments\<close>

subsection \<open>Fenced blocks\<close>

text \<open>
  nbformat stores a cell's text as the list of its lines, each but the last keeping its
  line feed. A markdown cell shows code between two fence lines, which start with three
  backquotes; \<open>fenced\<close> keeps the lines between the fences.
\<close>

definition source_lines :: "json \<Rightarrow> string list" where
  "source_lines c =
     (case jlookup ''source'' c of
        Some (JArray js) \<Rightarrow> map jtext js
      | Some (JString s) \<Rightarrow> [s]
      | _ \<Rightarrow> [])"

definition is_fence :: "string \<Rightarrow> bool" where
  "is_fence l = (take 3 l = ''```'')"

fun fenced :: "bool \<Rightarrow> string list \<Rightarrow> string list" where
  "fenced inside [] = []"
| "fenced inside (l # ls) =
     (if is_fence l then fenced (\<not> inside) ls
      else if inside then l # fenced inside ls
      else fenced inside ls)"

definition code_lines :: "json \<Rightarrow> string list" where
  "code_lines c = fenced False (source_lines c)"

subsection \<open>Tokens\<close>

text \<open>
  A line of Python is read as words (names, keywords and numbers: runs of letters,
  digits and underscores), string literals and single symbols. Blanks separate tokens
  and a \<^verbatim>\<open>#\<close> outside a string literal ends the line. A string literal runs to the next
  occurrence of its quote character. (\<open>is_word_char\<close> lists the letters by how often
  they occur, so that the common ones are found first.)
\<close>

datatype token = Word string | Sym char | Lit string

fun char_in :: "char \<Rightarrow> string \<Rightarrow> bool" where
  "char_in c [] = False"
| "char_in c (a # as) = (if c = a then True else char_in c as)"

definition is_word_char :: "char \<Rightarrow> bool" where
  "is_word_char c =
     char_in c ''etaoinsrhldcumfpgwybvkxjqz_ETAOINSRHLDCUMFPGWYBVKXJQZ0123456789''"

definition flush :: "string \<Rightarrow> token list" where
  "flush w = (if w = [] then [] else [Word (rev w)])"

datatype lex_mode = Code | InString char

fun lex :: "lex_mode \<Rightarrow> string \<Rightarrow> string \<Rightarrow> token list" where
  "lex Code w [] = flush w"
| "lex (InString q) w [] = [Lit (rev w)]"
| "lex Code w (c # s) =
     (if is_word_char c then lex Code (c # w) s
      else if c = CHR ''#'' then flush w
      else if c = CHR '' '' \<or> c = CHR 0x0A then flush w @ lex Code [] s
      else if c = CHR 0x22 \<or> c = CHR 0x27 then flush w @ lex (InString c) [] s
      else flush w @ Sym c # lex Code [] s)"
| "lex (InString q) w (c # s) =
     (if c = q then Lit (rev w) # lex Code [] s else lex (InString q) (c # w) s)"

fun indent :: "string \<Rightarrow> nat" where
  "indent [] = 0"
| "indent (c # s) = (if c = CHR '' '' then Suc (indent s) else 0)"

text \<open>A statement: the indentation of its first line, and its tokens.\<close>

type_synonym statement = "nat \<times> token list"

definition lex_line :: "string \<Rightarrow> statement" where
  "lex_line l = (indent l, lex Code [] l)"

subsection \<open>Statements\<close>

text \<open>
  As in Python, a line that leaves a bracket open continues on the next line; lines
  without a token (blank lines, comments) are no statements.
\<close>

fun bracket_depth :: "token list \<Rightarrow> int" where
  "bracket_depth [] = 0"
| "bracket_depth (Sym c # ts) =
     (if char_in c ''([{'' then bracket_depth ts + 1
      else if char_in c '')]}'' then bracket_depth ts - 1
      else bracket_depth ts)"
| "bracket_depth (t # ts) = bracket_depth ts"

fun logical_lines :: "statement list \<Rightarrow> statement list" where
  "logical_lines [] = []"
| "logical_lines [l] = [l]"
| "logical_lines (l # m # ls) =
     (if 0 < bracket_depth (snd l) then logical_lines ((fst l, snd l @ snd m) # ls)
      else l # logical_lines (m # ls))"

definition lexed :: "string list \<Rightarrow> statement list" where
  "lexed ls = map lex_line ls"

definition statements :: "string list \<Rightarrow> statement list" where
  "statements ls = logical_lines (filter (\<lambda>l. snd l \<noteq> []) (lexed ls))"

text \<open>The statements of all code fragments of a notebook, in document order.\<close>

definition code_statements :: "json \<Rightarrow> statement list" where
  "code_statements nb = statements (concat (map code_lines (cells nb)))"

subsection \<open>What a statement refers to\<close>

text \<open>
  The names an import statement brings in: the words after \<^verbatim>\<open>import\<close>.
\<close>

fun words_of :: "token list \<Rightarrow> string list" where
  "words_of [] = []"
| "words_of (Word w # ts) = w # words_of ts"
| "words_of (t # ts) = words_of ts"

fun after_import :: "token list \<Rightarrow> token list" where
  "after_import [] = []"
| "after_import (Word w # ts) = (if w = ''import'' then ts else after_import ts)"
| "after_import (t # ts) = after_import ts"

definition is_import :: "token list \<Rightarrow> bool" where
  "is_import ts = (case ts of Word w # _ \<Rightarrow> w = ''from'' \<or> w = ''import'' | _ \<Rightarrow> False)"

definition is_header :: "token list \<Rightarrow> bool" where
  "is_header ts = (case ts of Word w # _ \<Rightarrow> w = ''def'' \<or> w = ''class'' | _ \<Rightarrow> False)"

definition imported_names :: "token list \<Rightarrow> string list" where
  "imported_names ts = (if is_import ts then words_of (after_import ts) else [])"

text \<open>
  A call site is a dotted name directly before an opening parenthesis:
  \<^verbatim>\<open>posterior_nn(\<close>, \<^verbatim>\<open>nn.Conv2d(\<close>, \<^verbatim>\<open>x.view(\<close>. A method called on the value of an
  expression, as in \<^verbatim>\<open>super().__init__()\<close>, is the name with its leading dot. The state
  of the scan is the dotted name read so far and whether it ends in a dot. Keywords are
  no names, and the header of a \<^verbatim>\<open>def\<close> or \<^verbatim>\<open>class\<close> and an import statement call nothing.
\<close>

definition python_keywords :: "string list" where
  "python_keywords = [''False'', ''None'', ''True'', ''and'', ''as'', ''assert'', ''async'',
     ''await'', ''break'', ''class'', ''continue'', ''def'', ''del'', ''elif'', ''else'',
     ''except'', ''finally'', ''for'', ''from'', ''global'', ''if'', ''import'', ''in'', ''is'',
     ''lambda'', ''nonlocal'', ''not'', ''or'', ''pass'', ''raise'', ''return'', ''try'',
     ''while'', ''with'', ''yield'']"

fun calls_scan :: "string \<Rightarrow> bool \<Rightarrow> token list \<Rightarrow> string list" where
  "calls_scan cur dot [] = []"
| "calls_scan cur dot (Word w # ts) =
     (if w \<in> set python_keywords then calls_scan [] False ts
      else if dot then calls_scan (cur @ w) False ts
      else calls_scan w False ts)"
| "calls_scan cur dot (Sym c # ts) =
     (if c = CHR ''.'' then calls_scan (cur @ ''.'') True ts
      else if c = CHR ''('' \<and> cur \<noteq> [] \<and> \<not> dot then cur # calls_scan [] False ts
      else calls_scan [] False ts)"
| "calls_scan cur dot (Lit l # ts) = calls_scan [] False ts"

definition calls :: "token list \<Rightarrow> string list" where
  "calls ts = (if is_import ts \<or> is_header ts then [] else calls_scan [] False ts)"

text \<open>
  The header \<^verbatim>\<open>class C(B):\<close> defines \<open>C\<close> with the base \<open>B\<close>; \<^verbatim>\<open>def f(...):\<close> defines
  \<open>f\<close>.
\<close>

fun dotted_name :: "token list \<Rightarrow> string" where
  "dotted_name (Word w # ts) = w @ dotted_name ts"
| "dotted_name (Sym c # ts) = (if c = CHR ''.'' then c # dotted_name ts else [])"
| "dotted_name _ = []"

definition class_header :: "token list \<Rightarrow> (string \<times> string) option" where
  "class_header ts =
     (case ts of
        Word k # Word n # Sym p # bs \<Rightarrow>
          if k = ''class'' \<and> p = CHR ''('' then Some (n, dotted_name bs) else None
      | _ \<Rightarrow> None)"

definition def_header :: "token list \<Rightarrow> string option" where
  "def_header ts =
     (case ts of Word k # Word n # _ \<Rightarrow> if k = ''def'' then Some n else None | _ \<Rightarrow> None)"

text \<open>
  Statements at the left margin are the top level of a fragment; indented statements
  belong to the body of the class or function above them. The body of a function is the
  run of statements below its header that are indented deeper than the header.
\<close>

definition top_level :: "statement list \<Rightarrow> statement list" where
  "top_level sts = filter (\<lambda>st. fst st = 0) sts"

definition nested :: "statement list \<Rightarrow> statement list" where
  "nested sts = filter (\<lambda>st. 0 < fst st) sts"

fun body_of :: "string \<Rightarrow> statement list \<Rightarrow> statement list" where
  "body_of f [] = []"
| "body_of f (st # sts) =
     (if def_header (snd st) = Some f then takeWhile (\<lambda>b. fst st < fst b) sts
      else body_of f sts)"

definition calls_of :: "statement list \<Rightarrow> string list" where
  "calls_of sts = concat (map (\<lambda>st. calls (snd st)) sts)"

definition imports_of :: "statement list \<Rightarrow> string list" where
  "imports_of sts = concat (map (\<lambda>st. imported_names (snd st)) sts)"

definition classes_of :: "statement list \<Rightarrow> (string \<times> string) list" where
  "classes_of sts = concat (map (\<lambda>st. case class_header (snd st) of Some c \<Rightarrow> [c] | None \<Rightarrow> []) sts)"

definition code_words :: "statement list \<Rightarrow> string list" where
  "code_words sts = concat (map (\<lambda>st. words_of (snd st)) sts)"

text \<open>
  The names a list of statements refers to: the names it imports, the classes it
  defines and the names it calls, in all statements, those of the bodies of classes and
  functions included. \<open>advertised\<close> lists the names the documentation presents: the
  factory of density estimators, the three ready-made embedding networks, the custom
  module and the trainer.
\<close>

definition referenced :: "statement list \<Rightarrow> string list" where
  "referenced sts = imports_of sts @ map fst (classes_of sts) @ calls_of sts"

definition advertised :: "string list" where
  "advertised = [''posterior_nn'', ''FCEmbedding'', ''CNNEmbedding'',
     ''PermutationInvariantEmbedding'', ''CustomCNN'', ''NPE'']"

section \<open>The custom embedding network\<close>

text \<open>
  The second code fragment defines a network on top of PyTorch:
  \<^verbatim>\<open>
  class CustomCNN(nn.Module):
      def __init__(self):
          super().__init__()
          self.conv1 = nn.Conv2d(in_channels=1, out_channels=6, kernel_size=5, padding=2)
          self.pool = nn.MaxPool2d(kernel_size=8, stride=8)
          self.fc = nn.Linear(in_features=6 * 4 * 4, out_features=8)

      def forward(self, x):
          x = x.view(-1, 1, 32, 32)
          x = self.pool(F.relu(self.conv1(x)))
          x = x.view(-1, 6 * 4 * 4)
          x = F.relu(self.fc(x))
          return x
  \<close>
  The layers are PyTorch's; they are modelled from their documented behaviour.
\<close>

subsection \<open>Scalars and tensors\<close>

text \<open>
  A tensor element is a floating-point number. Finite values are idealised as reals
  (rounding and overflow are not modelled, and no result below depends on the value of
  a finite sum or product); the value NaN is kept, because arithmetic propagates it and
  every comparison with it is false.
\<close>

datatype scalar = NaN | Fin real

fun fadd :: "scalar \<Rightarrow> scalar \<Rightarrow> scalar" where
  "fadd (Fin a) (Fin b) = Fin (a + b)"
| "fadd _ _ = NaN"

fun fmul :: "scalar \<Rightarrow> scalar \<Rightarrow> scalar" where
  "fmul (Fin a) (Fin b) = Fin (a * b)"
| "fmul _ _ = NaN"

fun fmax :: "scalar \<Rightarrow> scalar \<Rightarrow> scalar" where
  "fmax (Fin a) (Fin b) = Fin (max a b)"
| "fmax _ _ = NaN"

text \<open>\<open>nonneg v\<close> is the comparison \<^verbatim>\<open>v >= 0\<close>: false for NaN.\<close>

fun nonneg :: "scalar \<Rightarrow> bool" where
  "nonneg (Fin a) = (0 \<le> a)"
| "nonneg NaN = False"

definition fsum :: "scalar list \<Rightarrow> scalar" where
  "fsum vs = fold (\<lambda>v acc. fadd acc v) vs (Fin 0)"

text \<open>The largest value of a pooling window; a window is never empty.\<close>

fun fmaximum :: "scalar list \<Rightarrow> scalar" where
  "fmaximum [] = NaN"
| "fmaximum (v # vs) = fold (\<lambda>u acc. fmax acc u) vs v"

subsection \<open>Tensors\<close>

text \<open>
  A tensor is a strided view of a storage: element \<open>(i\<^sub>1, ..., i\<^sub>k)\<close> is the storage element
  at \<open>offset + i\<^sub>1 * stride\<^sub>1 + ... + i\<^sub>k * stride\<^sub>k\<close>. It has an element type and lives on
  a device. \<open>numel\<close> is the number of elements the shape announces.
\<close>

datatype dtype = Float32 | Float64 | Int64

datatype device = CPU | CUDA

record tensor =
  shape :: "nat list"
  strides :: "nat list"
  offset :: nat
  dtype :: dtype
  device :: device
  elems :: "scalar list"

definition numel :: "tensor \<Rightarrow> nat" where
  "numel t = prod_list (shape t)"

text \<open>
  The largest storage index a tensor reads, relative to its offset. A record is a
  tensor when it has a stride for every dimension and its storage covers that index.
\<close>

definition max_offset :: "(nat \<times> nat) list \<Rightarrow> nat" where
  "max_offset ds = sum_list (map (\<lambda>(d, s). (d - 1) * s) ds)"

definition well_formed :: "tensor \<Rightarrow> bool" where
  "well_formed t \<longleftrightarrow>
     length (strides t) = length (shape t)
     \<and> (numel t = 0 \<or> offset t + max_offset (zip (shape t) (strides t)) < length (elems t))"

text \<open>
  The strides of a shape in row-major order, and the tensor PyTorch allocates for the
  result of an operation: row-major, at offset 0.
\<close>

fun row_major :: "nat list \<Rightarrow> nat list" where
  "row_major [] = []"
| "row_major (d # ds) = prod_list ds # row_major ds"

definition fresh :: "nat list \<Rightarrow> dtype \<Rightarrow> device \<Rightarrow> scalar list \<Rightarrow> tensor" where
  "fresh s dt dv vs =
     \<lparr>shape = s, strides = row_major s, offset = 0, dtype = dt, device = dv, elems = vs\<rparr>"

text \<open>
  \<^verbatim>\<open>Tensor.is_contiguous\<close>: from the last dimension to the first, every dimension of a
  size other than 1 has the stride that row-major order gives it; a tensor without
  elements is contiguous. The dimensions are passed last first, as pairs of size and
  stride.
\<close>

fun contig_from :: "nat \<Rightarrow> (nat \<times> nat) list \<Rightarrow> bool" where
  "contig_from z [] = True"
| "contig_from z ((d, s) # ds) =
     (if d = 1 then contig_from z ds else s = z \<and> contig_from (z * d) ds)"

definition contiguous :: "tensor \<Rightarrow> bool" where
  "contiguous t \<longleftrightarrow> numel t = 0 \<or> contig_from 1 (rev (zip (shape t) (strides t)))"

text \<open>
  The elements of a tensor in row-major order, read through its strides: \<open>unravel\<close>
  turns the position in that order into the index of the element.
\<close>

fun unravel :: "nat list \<Rightarrow> nat \<Rightarrow> nat list" where
  "unravel [] i = []"
| "unravel (d # ds) i = (i div prod_list ds) # unravel ds (i mod prod_list ds)"

definition logical :: "tensor \<Rightarrow> scalar list" where
  "logical t =
     map (\<lambda>i. elems t ! (offset t + sum_list (map2 (*) (unravel (shape t) i) (strides t))))
       [0..<numel t]"

datatype error = RuntimeError

subsection \<open>The operations of \<open>forward\<close>\<close>

text \<open>
  \<^verbatim>\<open>x.view(-1, d1, ..., dk)\<close> infers the leading dimension from the number of elements and
  raises a RuntimeError when the given dimensions do not divide it (or multiply to
  zero). The result shares the storage, so the new shape must be compatible with the
  old sizes and strides: PyTorch cuts the old dimensions, last first, into chunks that
  are laid out evenly (a dimension joins the chunk before it when its size is 1 or its
  stride is the chunk's size times the chunk's stride), and every chunk must be filled
  exactly by a run of the new dimensions. Otherwise it raises a RuntimeError (``view
  size is not compatible with input tensor's size and stride'').
\<close>

fun chunk_acc :: "nat \<Rightarrow> nat \<Rightarrow> (nat \<times> nat) list \<Rightarrow> (nat \<times> nat) list" where
  "chunk_acc n base [] = [(n, base)]"
| "chunk_acc n base ((d, s) # ds) =
     (if d = 1 \<or> s = n * base then chunk_acc (n * d) base ds
      else (n, base) # chunk_acc d s ds)"

fun chunks :: "(nat \<times> nat) list \<Rightarrow> (nat \<times> nat) list" where
  "chunks [] = []"
| "chunks ((d, s) # ds) = chunk_acc d s ds"

text \<open>
  The new dimensions, last first, that fill a chunk of \<open>tn\<close> elements with stride
  \<open>base\<close>: the number of elements they span, their strides, and the dimensions left.
\<close>

fun take_view :: "nat \<Rightarrow> nat \<Rightarrow> nat \<Rightarrow> nat list \<Rightarrow> nat \<times> nat list \<times> nat list" where
  "take_view tn base vn [] = (vn, [], [])"
| "take_view tn base vn (r # rs) =
     (if vn < tn \<or> r = 1
      then (case take_view tn base (vn * r) rs of
              (vn', ss, rest) \<Rightarrow> (vn', (vn * base) # ss, rest))
      else (vn, [], r # rs))"

fun view_strides :: "(nat \<times> nat) list \<Rightarrow> nat list \<Rightarrow> nat list option" where
  "view_strides [] rs = (if rs = [] then Some [] else None)"
| "view_strides ((tn, base) # cs) rs =
     (case take_view tn base 1 rs of
        (vn, ss, rest) \<Rightarrow>
          if vn = tn then map_option (\<lambda>ts. ss @ ts) (view_strides cs rest) else None)"

text \<open>The strides of a view of a tensor without elements are arbitrary.\<close>

fun zero_numel_strides :: "nat list \<Rightarrow> nat list" where
  "zero_numel_strides [] = []"
| "zero_numel_strides [d] = [1]"
| "zero_numel_strides (d # e # ds) =
     (case zero_numel_strides (e # ds) of
        s # ss \<Rightarrow> (max e 1 * s) # s # ss
      | [] \<Rightarrow> [])"

definition compute_stride :: "nat list \<Rightarrow> nat list \<Rightarrow> nat list \<Rightarrow> nat list option" where
  "compute_stride oldshape oldstride newshape =
     (if oldshape = [] then Some (replicate (length newshape) 1)
      else if prod_list oldshape = 0
      then Some (if oldshape = newshape then oldstride else zero_numel_strides newshape)
      else map_option rev (view_strides (chunks (rev (zip oldshape oldstride))) (rev newshape)))"

definition view :: "nat list \<Rightarrow> tensor \<Rightarrow> error + tensor" where
  "view dims t =
     (let k = prod_list dims in
      if well_formed t \<and> 0 < k \<and> numel t mod k = 0
      then (case compute_stride (shape t) (strides t) ((numel t div k) # dims) of
              Some st \<Rightarrow> Inr (t\<lparr>shape := (numel t div k) # dims, strides := st\<rparr>)
            | None \<Rightarrow> Inl RuntimeError)
      else Inl RuntimeError)"

text \<open>
  \<^verbatim>\<open>F.relu\<close>, element by element: \<open>max(0, v)\<close>, and NaN stays NaN. The layout is kept.
\<close>

fun relu_scalar :: "scalar \<Rightarrow> scalar" where
  "relu_scalar (Fin a) = Fin (max 0 a)"
| "relu_scalar NaN = NaN"

definition relu :: "tensor \<Rightarrow> tensor" where
  "relu t = t\<lparr>elems := map relu_scalar (elems t)\<rparr>"

text \<open>
  \<^verbatim>\<open>nn.Conv2d(in_channels, out_channels, kernel_size, padding)\<close>, with the default
  stride and dilation 1 and zero padding, on a batch of shape \<open>(N, C, H, W)\<close> or on one
  image of shape \<open>(C, H, W)\<close>. The weight has the shape \<open>(out_channels, in_channels, k, k)\<close>,
  the bias \<open>(out_channels)\<close>. The output size of a side of length \<open>h\<close> is
  \<open>h + 2 * padding - k + 1\<close>. The input must have the element type and the device of the
  parameters, or PyTorch raises a RuntimeError. Positions of the kernel that fall into
  the padding contribute nothing.
\<close>

record conv2d_layer =
  in_channels :: nat
  out_channels :: nat
  kernel_size :: nat
  padding :: nat
  weight :: "scalar list"
  bias :: "scalar list"
  conv_dtype :: dtype
  conv_device :: device

definition conv_out :: "nat \<Rightarrow> nat \<Rightarrow> nat \<Rightarrow> nat" where
  "conv_out h k p = h + 2 * p - k + 1"

definition conv_at :: "conv2d_layer \<Rightarrow> nat \<Rightarrow> nat \<Rightarrow> nat \<Rightarrow> scalar list \<Rightarrow> nat \<Rightarrow> nat \<Rightarrow> nat \<Rightarrow> nat \<Rightarrow> scalar" where
  "conv_at L c h w vs b out i j =
     (let k = kernel_size L; p = padding L in
      fadd
        (fsum [fmul (weight L ! (((out * c + ci) * k + di) * k + dj))
                    (vs ! (((b * c + ci) * h + (i + di - p)) * w + (j + dj - p))).
               ci \<leftarrow> [0..<c], di \<leftarrow> [0..<k], dj \<leftarrow> [0..<k],
               p \<le> i + di \<and> i + di < h + p \<and> p \<le> j + dj \<and> j + dj < w + p])
        (bias L ! out))"

definition conv2d_elems :: "conv2d_layer \<Rightarrow> nat \<Rightarrow> nat \<Rightarrow> nat \<Rightarrow> nat \<Rightarrow> scalar list \<Rightarrow> scalar list" where
  "conv2d_elems L n c h w vs =
     (let k = kernel_size L; p = padding L in
      [conv_at L c h w vs b out i j.
       b \<leftarrow> [0..<n], out \<leftarrow> [0..<out_channels L],
       i \<leftarrow> [0..<conv_out h k p], j \<leftarrow> [0..<conv_out w k p]])"

definition conv2d :: "conv2d_layer \<Rightarrow> tensor \<Rightarrow> error + tensor" where
  "conv2d L t =
     (let k = kernel_size L; p = padding L; oc = out_channels L; ic = in_channels L in
      if well_formed t \<and> dtype t = conv_dtype L \<and> device t = conv_device L \<and> 0 < k
         \<and> length (weight L) = oc * ic * k * k \<and> length (bias L) = oc
      then (case shape t of
              [n, c, h, w] \<Rightarrow>
                if c = ic \<and> k \<le> h + 2 * p \<and> k \<le> w + 2 * p
                then Inr (fresh [n, oc, conv_out h k p, conv_out w k p] (dtype t) (device t)
                            (conv2d_elems L n c h w (logical t)))
                else Inl RuntimeError
            | [c, h, w] \<Rightarrow>
                if c = ic \<and> k \<le> h + 2 * p \<and> k \<le> w + 2 * p
                then Inr (fresh [oc, conv_out h k p, conv_out w k p] (dtype t) (device t)
                            (conv2d_elems L 1 c h w (logical t)))
                else Inl RuntimeError
            | _ \<Rightarrow> Inl RuntimeError)
      else Inl RuntimeError)"

text \<open>
  \<^verbatim>\<open>nn.MaxPool2d(kernel_size, stride)\<close>, without padding, on a batch or on one image of
  floating-point elements: the output size of a side of length \<open>h\<close> is
  \<open>(h - k) div stride + 1\<close>, and each output element is the largest of its window.
\<close>

record maxpool2d_layer =
  pool_kernel_size :: nat
  pool_stride :: nat

definition pool_out :: "nat \<Rightarrow> nat \<Rightarrow> nat \<Rightarrow> nat" where
  "pool_out h k s = (h - k) div s + 1"

definition max_pool2d_elems :: "maxpool2d_layer \<Rightarrow> nat \<Rightarrow> nat \<Rightarrow> nat \<Rightarrow> nat \<Rightarrow> scalar list \<Rightarrow> scalar list" where
  "max_pool2d_elems L n c h w vs =
     (let k = pool_kernel_size L; s = pool_stride L in
      [fmaximum [vs ! (((b * c + ci) * h + (i * s + di)) * w + (j * s + dj)).
                 di \<leftarrow> [0..<k], dj \<leftarrow> [0..<k]].
       b \<leftarrow> [0..<n], ci \<leftarrow> [0..<c],
       i \<leftarrow> [0..<pool_out h k s], j \<leftarrow> [0..<pool_out w k s]])"

definition max_pool2d :: "maxpool2d_layer \<Rightarrow> tensor \<Rightarrow> error + tensor" where
  "max_pool2d L t =
     (let k = pool_kernel_size L; s = pool_stride L in
      if well_formed t \<and> dtype t \<noteq> Int64 \<and> 0 < k \<and> 0 < s
      then (case shape t of
              [n, c, h, w] \<Rightarrow>
                if k \<le> h \<and> k \<le> w
                then Inr (fresh [n, c, pool_out h k s, pool_out w k s] (dtype t) (device t)
                            (max_pool2d_elems L n c h w (logical t)))
                else Inl RuntimeError
            | [c, h, w] \<Rightarrow>
                if k \<le> h \<and> k \<le> w
                then Inr (fresh [c, pool_out h k s, pool_out w k s] (dtype t) (device t)
                            (max_pool2d_elems L 1 c h w (logical t)))
                else Inl RuntimeError
            | _ \<Rightarrow> Inl RuntimeError)
      else Inl RuntimeError)"

text \<open>
  \<^verbatim>\<open>nn.Linear(in_features, out_features)\<close> on a tensor of shape \<open>(..., in_features)\<close>:
  the weight has the shape \<open>(out_features, in_features)\<close>, and row \<open>b\<close> of the output is
  \<open>W x\<^sub>b + bias\<close>. The input must have the element type and the device of the
  parameters.
\<close>

record linear_layer =
  in_features :: nat
  out_features :: nat
  lin_weight :: "scalar list"
  lin_bias :: "scalar list"
  lin_dtype :: dtype
  lin_device :: device

definition linear_at :: "linear_layer \<Rightarrow> scalar list \<Rightarrow> nat \<Rightarrow> nat \<Rightarrow> scalar" where
  "linear_at L vs b out =
     fadd
       (fsum [fmul (lin_weight L ! (out * in_features L + i)) (vs ! (b * in_features L + i)).
              i \<leftarrow> [0..<in_features L]])
       (lin_bias L ! out)"

definition linear_elems :: "linear_layer \<Rightarrow> nat \<Rightarrow> scalar list \<Rightarrow> scalar list" where
  "linear_elems L n vs =
     [linear_at L vs b out. b \<leftarrow> [0..<n], out \<leftarrow> [0..<out_features L]]"

definition linear :: "linear_layer \<Rightarrow> tensor \<Rightarrow> error + tensor" where
  "linear L t =
     (if well_formed t \<and> dtype t = lin_dtype L \<and> device t = lin_device L
         \<and> shape t \<noteq> [] \<and> last (shape t) = in_features L
         \<and> length (lin_weight L) = out_features L * in_features L
         \<and> length (lin_bias L) = out_features L
      then Inr (fresh (butlast (shape t) @ [out_features L]) (dtype t) (device t)
                  (linear_elems L (prod_list (butlast (shape t))) (logical t)))
      else Inl RuntimeError)"

subsection \<open>The module\<close>

text \<open>
  The state of a \<open>CustomCNN\<close>: its three layers, and the training flag every
  \<^verbatim>\<open>nn.Module\<close> carries. \<^verbatim>\<open>__init__\<close> fixes the sizes of the layers; PyTorch draws the
  initial weights at random, so they are arguments here, and creates them with its
  default element type on its default device: float32 on the CPU.
\<close>

record custom_cnn =
  conv1 :: conv2d_layer
  pool :: maxpool2d_layer
  fc :: linear_layer
  training :: bool

definition CustomCNN :: "scalar list \<Rightarrow> scalar list \<Rightarrow> scalar list \<Rightarrow> scalar list \<Rightarrow> custom_cnn" where
  "CustomCNN w1 b1 w2 b2 =
     \<lparr>conv1 = \<lparr>in_channels = 1, out_channels = 6, kernel_size = 5, padding = 2,
                weight = w1, bias = b1, conv_dtype = Float32, conv_device = CPU\<rparr>,
      pool = \<lparr>pool_kernel_size = 8, pool_stride = 8\<rparr>,
      fc = \<lparr>in_features = 6 * 4 * 4, out_features = 8, lin_weight = w2, lin_bias = b2,
             lin_dtype = Float32, lin_device = CPU\<rparr>,
      training = True\<rparr>"

text \<open>
  The parameters have the sizes of the layers: a weight of shape \<open>(6, 1, 5, 5)\<close> and a
  bias of 6 for the convolution, a weight of shape \<open>(8, 96)\<close> and a bias of 8 for the
  linear layer.
\<close>

definition valid_parameters :: "scalar list \<Rightarrow> scalar list \<Rightarrow> scalar list \<Rightarrow> scalar list \<Rightarrow> bool" where
  "valid_parameters w1 b1 w2 b2 \<longleftrightarrow>
     length w1 = 6 * 1 * 5 * 5 \<and> length b1 = 6 \<and> length w2 = 8 * (6 * 4 * 4) \<and> length b2 = 8"

text \<open>An error of a step ends the computation, as the exception does.\<close>

definition and_then :: "error + 'a \<Rightarrow> ('a \<Rightarrow> error + 'b) \<Rightarrow> error + 'b" where
  "and_then r f = (case r of Inl e \<Rightarrow> Inl e | Inr v \<Rightarrow> f v)"

definition forward :: "custom_cnn \<Rightarrow> tensor \<Rightarrow> error + tensor" where
  "forward self x =
     and_then (view [1, 32, 32] x) (\<lambda>x.
     and_then (conv2d (conv1 self) x) (\<lambda>c.
     and_then (max_pool2d (pool self) (relu c)) (\<lambda>x.
     and_then (view [6 * 4 * 4] x) (\<lambda>x.
     and_then (linear (fc self) x) (\<lambda>l.
     Inr (relu l))))))"

text \<open>A value a comparison \<^verbatim>\<open>v >= 0\<close> does not reject for another reason than NaN.\<close>

definition nonneg_or_nan :: "scalar \<Rightarrow> bool" where
  "nonneg_or_nan v \<longleftrightarrow> v = NaN \<or> nonneg v"

section \<open>Cell types\<close>

lemmas cell_defs =
  cell_1_def cell_2_def cell_3_def cell_4_def cell_5_def cell_6_def cell_7_def cell_8_def

lemma cells_notebook:
  "cells notebook = [cell_1, cell_2, cell_3, cell_4, cell_5, cell_6, cell_7, cell_8]"
  by (simp add: cells_def notebook_def)

lemma cell_type_cells:
  "cell_type cell_1 = ''markdown''" "cell_type cell_2 = ''markdown''"
  "cell_type cell_3 = ''markdown''" "cell_type cell_4 = ''markdown''"
  "cell_type cell_5 = ''markdown''" "cell_type cell_6 = ''markdown''"
  "cell_type cell_7 = ''markdown''" "cell_type cell_8 = ''markdown''"
  by (simp_all add: cell_type_def cell_defs)

lemma jkeys_cells:
  "jkeys cell_1 = [''cell_type'', ''metadata'', ''source'']"
  "jkeys cell_2 = [''cell_type'', ''metadata'', ''source'']"
  "jkeys cell_3 = [''cell_type'', ''metadata'', ''source'']"
  "jkeys cell_4 = [''cell_type'', ''metadata'', ''source'']"
  "jkeys cell_5 = [''cell_type'', ''metadata'', ''source'']"
  "jkeys cell_6 = [''cell_type'', ''metadata'', ''source'']"
  "jkeys cell_7 = [''cell_type'', ''metadata'', ''source'']"
  "jkeys cell_8 = [''cell_type'', ''metadata'', ''source'']"
  by (simp_all add: cell_defs)

text \<open>
  Claim C1. Every cell of the notebook has the cell type \<^verbatim>\<open>markdown\<close>: the notebook has
  eight cells, none of them a code cell, and no cell carries the keys of an executed
  cell (\<^verbatim>\<open>outputs\<close>, \<^verbatim>\<open>execution_count\<close>). The code fragments are text of markdown cells.
\<close>

theorem all_cells_markdown:
  "map cell_type (cells notebook) = replicate 8 ''markdown''
   \<and> code_cells notebook = []
   \<and> map jkeys (cells notebook) = replicate 8 [''cell_type'', ''metadata'', ''source'']"
  by (simp add: code_cells_def cells_notebook cell_type_cells jkeys_cells eval_nat_numeral)

section \<open>The stored text\<close>

text \<open>
  The embedded document, laid out as nbformat writes it, is the stored file line by line.
\<close>

lemma notebook_is_file: "json_lines 0 notebook = file_lines"
  by (simp add: notebook_def cell_defs notebook_metadata_def file_lines_def jescape_def
      backslash_def jnumber_def digit_char_def)

text \<open>
  The search is what it should be: a pattern occurs in a line exactly when some part of
  the line matches it character by character, each character being one of the two of
  its position in the pattern; and \<open>lines_with\<close> keeps the lines in which one of the
  patterns occurs.
\<close>

lemma matches_at_iff:
  "matches_at p s \<longleftrightarrow>
     (\<exists>m r. s = m @ r \<and> list_all2 (\<lambda>c q. c = fst q \<or> c = snd q) m p)"
proof (induction p s rule: matches_at.induct)
  case (1 s)
  then show ?case by simp
next
  case (2 p ps)
  then show ?case by simp
next
  case (3 p ps c s)
  then show ?case
    by (auto simp: list_all2_Cons2 Cons_eq_append_conv)
qed

lemma occurs_iff:
  "occurs p s \<longleftrightarrow>
     (\<exists>a m r. s = a @ m @ r \<and> list_all2 (\<lambda>c q. c = fst q \<or> c = snd q) m p)"
proof (induction s)
  case Nil
  then show ?case by auto
next
  case (Cons c s)
  show ?case
  proof
    assume "occurs p (c # s)"
    then consider "matches_at p (c # s)" | "occurs p s"
      by (auto split: if_splits)
    then show "\<exists>a m r. c # s = a @ m @ r \<and> list_all2 (\<lambda>c q. c = fst q \<or> c = snd q) m p"
    proof cases
      case 1
      then obtain m r where "c # s = m @ r" "list_all2 (\<lambda>c q. c = fst q \<or> c = snd q) m p"
        by (auto simp: matches_at_iff)
      then have "c # s = [] @ m @ r \<and> list_all2 (\<lambda>c q. c = fst q \<or> c = snd q) m p"
        by simp
      then show ?thesis by blast
    next
      case 2
      then obtain a m r where "s = a @ m @ r" "list_all2 (\<lambda>c q. c = fst q \<or> c = snd q) m p"
        using Cons.IH by blast
      then have "c # s = (c # a) @ m @ r \<and> list_all2 (\<lambda>c q. c = fst q \<or> c = snd q) m p"
        by simp
      then show ?thesis by blast
    qed
  next
    assume "\<exists>a m r. c # s = a @ m @ r \<and> list_all2 (\<lambda>c q. c = fst q \<or> c = snd q) m p"
    then obtain a m r where e: "c # s = a @ m @ r" and l: "list_all2 (\<lambda>c q. c = fst q \<or> c = snd q) m p"
      by blast
    show "occurs p (c # s)"
    proof (cases a)
      case Nil
      with e l have "matches_at p (c # s)"
        by (auto simp: matches_at_iff)
      then show ?thesis by simp
    next
      case (Cons a0 as)
      with e have "s = as @ m @ r" by simp
      with l have "occurs p s" using Cons.IH by blast
      then show ?thesis by simp
    qed
  qed
qed

lemma occurs_any_iff: "occurs_any ps l \<longleftrightarrow> list_ex (\<lambda>p. occurs p l) ps"
  by (induction ps) auto

lemma lines_with_filter: "lines_with ps ls = filter (occurs_any ps) ls"
  by (induction ls) auto

text \<open>
  The search functions recurse along a line; these rules keep the simplifier from
  walking the rest of the line again at every step.
\<close>

lemma matches_at_frozen: "matches_at p s = matches_at p s"
  by (rule refl)

lemma occurs_frozen: "occurs p s = occurs p s"
  by (rule refl)

lemma occurs_any_frozen: "occurs_any ps s = occurs_any ps s"
  by (rule refl)

lemma lines_with_frozen: "lines_with ps ls = lines_with ps ls"
  by (rule refl)

lemmas search_simps =
  lines_with.simps occurs_any.simps occurs.simps matches_at.simps fst_conv snd_conv
  if_True if_False char.inject simp_thms list.simps

lemmas search_congs =
  matches_at_frozen occurs_frozen occurs_any_frozen lines_with_frozen if_weak_cong

lemma infrastructure_patterns:
  "map ci_pattern [''scheduler'', ''protocol'', ''cache'', ''resolver'', ''storage''] =
   [zip ''scheduler'' ''SCHEDULER'', zip ''protocol'' ''PROTOCOL'', zip ''cache'' ''CACHE'',
    zip ''resolver'' ''RESOLVER'', zip ''storage'' ''STORAGE'']"
  by (simp add: ci_pattern_def lower_char_def upper_char_def)

lemma no_infrastructure_words:
  "lines_mentioning [''scheduler'', ''protocol'', ''cache'', ''resolver'', ''storage'']
     file_lines = []"
  unfolding lines_mentioning_def infrastructure_patterns file_lines_def
  apply (simp only: append.simps backslash_def zip.simps list.case)
  apply (simp only: search_simps cong: search_congs)
  done

lemma length_file_lines: "length file_lines = 133"
  by (simp add: file_lines_def)

text \<open>
  Claim C3, as stated: the source has 134 lines. The stored file has 133 (132 line
  feeds, and a last line that is not terminated).
\<close>

theorem line_count_counterexample: "length file_lines \<noteq> 134"
  by (simp add: length_file_lines)

text \<open>
  Claim C3, amended. The source has exactly 133 lines, and none of them mentions a
  scheduler, a protocol, a cache, a resolver or storage, in any letter case.
\<close>

theorem line_count_and_no_infrastructure:
  "length file_lines = 133
   \<and> lines_mentioning [''scheduler'', ''protocol'', ''cache'', ''resolver'', ''storage'']
         file_lines = []"
  by (simp add: length_file_lines no_infrastructure_words)

section \<open>Error handling and concurrency in the text\<close>

lemma error_patterns:
  "map ci_pattern [''try'', ''except'', ''raise'', ''finally'', ''assert'', ''catch'',
     ''throw'', ''error''] =
   [zip ''try'' ''TRY'', zip ''except'' ''EXCEPT'', zip ''raise'' ''RAISE'',
    zip ''finally'' ''FINALLY'', zip ''assert'' ''ASSERT'', zip ''catch'' ''CATCH'',
    zip ''throw'' ''THROW'', zip ''error'' ''ERROR'']"
  by (simp add: ci_pattern_def lower_char_def upper_char_def)

text \<open>
  Claim C7. No error-handling construct occurs anywhere in the notebook: no line of the
  file, prose or code fragment, contains \<^verbatim>\<open>try\<close>, \<^verbatim>\<open>except\<close>, \<^verbatim>\<open>raise\<close>, \<^verbatim>\<open>finally\<close>,
  \<^verbatim>\<open>assert\<close>, \<^verbatim>\<open>catch\<close>, \<^verbatim>\<open>throw\<close> or \<^verbatim>\<open>error\<close>, in any letter case, not even as part
  of a longer word.
\<close>

theorem no_error_handling:
  "lines_mentioning [''try'', ''except'', ''raise'', ''finally'', ''assert'', ''catch'',
     ''throw'', ''error''] file_lines = []"
  unfolding lines_mentioning_def error_patterns file_lines_def
  apply (simp only: append.simps backslash_def zip.simps list.case)
  apply (simp only: search_simps cong: search_congs)
  done

section \<open>The statements of the code fragments\<close>

text \<open>
  Reading a line is a recursion along its characters; as for the search, these rules
  keep the simplifier from walking the rest of the line at every step.
\<close>

lemma lex_frozen: "lex m w s = lex m w s"
  by (rule refl)

lemma indent_frozen: "indent s = indent s"
  by (rule refl)

lemma map_frozen: "map f xs = map f xs"
  by (rule refl)

text \<open>
  The two fenced blocks of the notebook (cells 5 and 7) hold twenty statements.
\<close>

lemma code_statements_notebook:
  "code_statements notebook =
   [(0, [Word ''from'', Word ''sbi'', Sym (CHR ''.''), Word ''neural_nets'',
          Word ''import'', Word ''posterior_nn'']),
     (0, [Word ''from'', Word ''sbi'', Sym (CHR ''.''), Word ''neural_nets'',
          Sym (CHR ''.''), Word ''embedding_nets'', Word ''import'',
          Sym (CHR ''(''), Word ''FCEmbedding'', Sym (CHR '',''),
          Word ''CNNEmbedding'', Sym (CHR '',''),
          Word ''PermutationInvariantEmbedding'', Sym (CHR '')'')]),
     (0, [Word ''embedding_net'', Sym (CHR ''=''), Word ''CNNEmbedding'',
          Sym (CHR ''(''), Word ''input_shape'', Sym (CHR ''=''), Sym (CHR ''(''),
          Word ''32'', Sym (CHR '',''), Word ''32'', Sym (CHR '')''),
          Sym (CHR '')'')]),
     (0, [Word ''neural_posterior'', Sym (CHR ''=''), Word ''posterior_nn'',
          Sym (CHR ''(''), Word ''model'', Sym (CHR ''=''), Lit ''maf'',
          Sym (CHR '',''), Word ''embedding_net'', Sym (CHR ''=''),
          Word ''embedding_net'', Sym (CHR '')'')]),
     (0, [Word ''trainer'', Sym (CHR ''=''), Word ''NPE'', Sym (CHR ''(''),
          Word ''density_estimator'', Sym (CHR ''=''), Word ''neural_posterior'',
          Sym (CHR '')'')]),
     (0, [Word ''class'', Word ''CustomCNN'', Sym (CHR ''(''), Word ''nn'',
          Sym (CHR ''.''), Word ''Module'', Sym (CHR '')''), Sym (CHR '':'')]),
     (4, [Word ''def'', Word ''__init__'', Sym (CHR ''(''), Word ''self'',
          Sym (CHR '')''), Sym (CHR '':'')]),
     (8, [Word ''super'', Sym (CHR ''(''), Sym (CHR '')''), Sym (CHR ''.''),
          Word ''__init__'', Sym (CHR ''(''), Sym (CHR '')'')]),
     (8, [Word ''self'', Sym (CHR ''.''), Word ''conv1'', Sym (CHR ''=''),
          Word ''nn'', Sym (CHR ''.''), Word ''Conv2d'', Sym (CHR ''(''),
          Word ''in_channels'', Sym (CHR ''=''), Word ''1'', Sym (CHR '',''),
          Word ''out_channels'', Sym (CHR ''=''), Word ''6'', Sym (CHR '',''),
          Word ''kernel_size'', Sym (CHR ''=''), Word ''5'', Sym (CHR '',''),
          Word ''padding'', Sym (CHR ''=''), Word ''2'', Sym (CHR '')'')]),
     (8, [Word ''self'', Sym (CHR ''.''), Word ''pool'', Sym (CHR ''=''),
          Word ''nn'', Sym (CHR ''.''), Word ''MaxPool2d'', Sym (CHR ''(''),
          Word ''kernel_size'', Sym (CHR ''=''), Word ''8'', Sym (CHR '',''),
          Word ''stride'', Sym (CHR ''=''), Word ''8'', Sym (CHR '')'')]),
     (8, [Word ''self'', Sym (CHR ''.''), Word ''fc'', Sym (CHR ''=''),
          Word ''nn'', Sym (CHR ''.''), Word ''Linear'', Sym (CHR ''(''),
          Word ''in_features'', Sym (CHR ''=''), Word ''6'', Sym (CHR ''*''),
          Word ''4'', Sym (CHR ''*''), Word ''4'', Sym (CHR '',''),
          Word ''out_features'', Sym (CHR ''=''), Word ''8'', Sym (CHR '')'')]),
     (4, [Word ''def'', Word ''forward'', Sym (CHR ''(''), Word ''self'',
          Sym (CHR '',''), Word ''x'', Sym (CHR '')''), Sym (CHR '':'')]),
     (8, [Word ''x'', Sym (CHR ''=''), Word ''x'', Sym (CHR ''.''), Word ''view'',
          Sym (CHR ''(''), Sym (CHR ''-''), Word ''1'', Sym (CHR '',''), Word ''1'',
          Sym (CHR '',''), Word ''32'', Sym (CHR '',''), Word ''32'',
          Sym (CHR '')'')]),
     (8, [Word ''x'', Sym (CHR ''=''), Word ''self'', Sym (CHR ''.''),
          Word ''pool'', Sym (CHR ''(''), Word ''F'', Sym (CHR ''.''),
          Word ''relu'', Sym (CHR ''(''), Word ''self'', Sym (CHR ''.''),
          Word ''conv1'', Sym (CHR ''(''), Word ''x'', Sym (CHR '')''),
          Sym (CHR '')''), Sym (CHR '')'')]),
     (8, [Word ''x'', Sym (CHR ''=''), Word ''x'', Sym (CHR ''.''), Word ''view'',
          Sym (CHR ''(''), Sym (CHR ''-''), Word ''1'', Sym (CHR '',''), Word ''6'',
          Sym (CHR ''*''), Word ''4'', Sym (CHR ''*''), Word ''4'',
          Sym (CHR '')'')]),
     (8, [Word ''x'', Sym (CHR ''=''), Word ''F'', Sym (CHR ''.''), Word ''relu'',
          Sym (CHR ''(''), Word ''self'', Sym (CHR ''.''), Word ''fc'',
          Sym (CHR ''(''), Word ''x'', Sym (CHR '')''), Sym (CHR '')'')]),
     (8, [Word ''return'', Word ''x'']),
     (0, [Word ''embedding_net_custom'', Sym (CHR ''=''), Word ''CustomCNN'',
          Sym (CHR ''(''), Sym (CHR '')'')]),
     (0, [Word ''neural_posterior'', Sym (CHR ''=''), Word ''posterior_nn'',
          Sym (CHR ''(''), Word ''model'', Sym (CHR ''=''), Lit ''maf'',
          Sym (CHR '',''), Word ''embedding_net'', Sym (CHR ''=''),
          Word ''embedding_net_custom'', Sym (CHR '')'')]),
     (0, [Word ''trainer'', Sym (CHR ''=''), Word ''NPE'', Sym (CHR ''(''),
          Word ''density_estimator'', Sym (CHR ''=''), Word ''neural_posterior'',
          Sym (CHR '')'')])]"
  unfolding code_statements_def
  apply (simp add: cells_notebook code_lines_def source_lines_def cell_defs is_fence_def)
  apply (simp only: statements_def lexed_def lex_line_def lex.simps indent.simps
      is_word_char_def char_in.simps flush_def if_True if_False char.inject simp_thms list.simps
      rev.simps append.simps
      cong: lex_frozen indent_frozen map_frozen if_weak_cong)
  apply simp
  done

lemma imports_notebook:
  "imports_of (code_statements notebook) =
     [''posterior_nn'', ''FCEmbedding'', ''CNNEmbedding'', ''PermutationInvariantEmbedding'']"
  by (simp add: code_statements_notebook imports_of_def imported_names_def is_import_def)

lemma classes_notebook:
  "classes_of (code_statements notebook) = [(''CustomCNN'', ''nn.Module'')]"
  by (simp add: code_statements_notebook classes_of_def class_header_def)

lemma top_level_calls_notebook:
  "calls_of (top_level (code_statements notebook)) =
     [''CNNEmbedding'', ''posterior_nn'', ''NPE'', ''CustomCNN'', ''posterior_nn'', ''NPE'']"
  by (simp add: code_statements_notebook calls_of_def top_level_def calls_def is_import_def
      is_header_def python_keywords_def)

lemma nested_calls_notebook:
  "calls_of (nested (code_statements notebook)) =
     [''super'', ''.__init__'', ''nn.Conv2d'', ''nn.MaxPool2d'', ''nn.Linear'',
      ''x.view'', ''self.pool'', ''F.relu'', ''self.conv1'', ''x.view'', ''F.relu'', ''self.fc'']"
  by (simp add: code_statements_notebook calls_of_def nested_def calls_def is_import_def
      is_header_def python_keywords_def)

lemma forward_calls_notebook:
  "calls_of (body_of ''forward'' (code_statements notebook)) =
     [''x.view'', ''self.pool'', ''F.relu'', ''self.conv1'', ''x.view'', ''F.relu'', ''self.fc'']"
  by (simp add: code_statements_notebook calls_of_def def_header_def calls_def is_import_def
      is_header_def python_keywords_def)

lemma keywords_notebook:
  "filter (\<lambda>w. w \<in> set python_keywords) (code_words (code_statements notebook)) =
     [''from'', ''import'', ''from'', ''import'', ''class'', ''def'', ''def'', ''return'']"
  by (simp add: code_statements_notebook code_words_def python_keywords_def)

section \<open>Layout\<close>

text \<open>
  A freshly allocated tensor is a tensor, and the chunks of a contiguous tensor with
  more than one element are one chunk of all its elements with stride 1, possibly after
  a chunk of one element (a last dimension of size 1 may have any stride).
\<close>

lemma length_row_major: "length (row_major s) = length s"
  by (induction s) simp_all

lemma max_offset_row_major:
  assumes "0 < prod_list s"
  shows "max_offset (zip s (row_major s)) + 1 = prod_list s"
  using assms
proof (induction s)
  case Nil
  then show ?case by (simp add: max_offset_def)
next
  case (Cons d ds)
  then have d: "0 < d" and p: "0 < prod_list ds"
    by simp_all
  from Cons.IH [OF p] have "max_offset (zip ds (row_major ds)) + 1 = prod_list ds" .
  moreover have "(d - 1) * prod_list ds + prod_list ds = d * prod_list ds"
    using d by (cases d) simp_all
  ultimately show ?case
    by (simp add: max_offset_def)
qed

lemma fresh_well_formed:
  assumes "length vs = prod_list s"
  shows "well_formed (fresh s dt dv vs)"
proof (cases "prod_list s = 0")
  case True
  then show ?thesis
    by (simp add: well_formed_def fresh_def numel_def length_row_major)
next
  case False
  then have "max_offset (zip s (row_major s)) + 1 = prod_list s"
    using max_offset_row_major [of s] by simp
  then show ?thesis
    using assms by (simp add: well_formed_def fresh_def numel_def length_row_major)
qed

lemma length_conv2d_elems:
  "length (conv2d_elems L n c h w vs) =
     n * (out_channels L * (conv_out h (kernel_size L) (padding L) * conv_out w (kernel_size L) (padding L)))"
  by (simp add: conv2d_elems_def Let_def length_concat comp_def sum_list_triv)

lemma length_max_pool2d_elems:
  "length (max_pool2d_elems L n c h w vs) =
     n * (c * (pool_out h (pool_kernel_size L) (pool_stride L) * pool_out w (pool_kernel_size L) (pool_stride L)))"
  by (simp add: max_pool2d_elems_def Let_def length_concat comp_def sum_list_triv)


lemma chunk_acc_contig:
  assumes "contig_from (m * b) ds"
  shows "chunk_acc m b ds = [(m * prod_list (map fst ds), b)]"
  using assms
proof (induction ds arbitrary: m)
  case Nil
  then show ?case by simp
next
  case (Cons a ds)
  obtain d s where a: "a = (d, s)" by (cases a)
  show ?case
  proof (cases "d = 1")
    case True
    with Cons a show ?thesis by simp
  next
    case False
    with Cons.prems a have s: "s = m * b" and c: "contig_from (m * d * b) ds"
      by (simp_all add: mult.commute mult.left_commute)
    from Cons.IH [OF c] s a False show ?thesis
      by (simp add: mult.assoc)
  qed
qed

lemma chunk_acc_unit:
  assumes "contig_from 1 ds" and "1 < prod_list (map fst ds)"
  shows "chunk_acc 1 s ds =
           (if s = 1 then [(prod_list (map fst ds), 1)] else [(1, s), (prod_list (map fst ds), 1)])"
  using assms
proof (induction ds)
  case Nil
  then show ?case by simp
next
  case (Cons a ds)
  obtain d st where a: "a = (d, st)" by (cases a)
  show ?case
  proof (cases "d = 1")
    case True
    with Cons a show ?thesis by simp
  next
    case False
    with Cons.prems a have st: "st = 1" and c: "contig_from (d * 1) ds"
      by simp_all
    from chunk_acc_contig [OF c] st a False show ?thesis
      by simp
  qed
qed

lemma chunks_contig:
  assumes "contig_from 1 ds" and "1 < prod_list (map fst ds)"
  shows "chunks ds = [(prod_list (map fst ds), 1)]
         \<or> (\<exists>s. s \<noteq> 1 \<and> chunks ds = [(1, s), (prod_list (map fst ds), 1)])"
proof (cases ds)
  case Nil
  with assms show ?thesis by simp
next
  case (Cons a ds')
  obtain d s where a: "a = (d, s)" by (cases a)
  show ?thesis
  proof (cases "d = 1")
    case True
    with assms Cons a have "contig_from 1 ds'" "1 < prod_list (map fst ds')"
      by simp_all
    from chunk_acc_unit [OF this, of s] Cons a True show ?thesis
      by (cases "s = 1") simp_all
  next
    case False
    with assms Cons a have s: "s = 1" and c: "contig_from (d * 1) ds'"
      by simp_all
    from chunk_acc_contig [OF c] Cons a s show ?thesis
      by simp
  qed
qed

lemma max_offset_contig:
  assumes "contig_from z ds" and "0 < prod_list (map fst ds)"
  shows "max_offset ds + z = z * prod_list (map fst ds)"
  using assms
proof (induction ds arbitrary: z)
  case Nil
  then show ?case by (simp add: max_offset_def)
next
  case (Cons a ds)
  obtain d s where a: "a = (d, s)" by (cases a)
  from Cons.prems a have d: "0 < d" and p: "0 < prod_list (map fst ds)"
    by simp_all
  show ?case
  proof (cases "d = 1")
    case True
    with Cons a p show ?thesis by (simp add: max_offset_def)
  next
    case False
    with Cons.prems a have s: "s = z" and c: "contig_from (z * d) ds"
      by simp_all
    from Cons.IH [OF c p] have i: "max_offset ds + z * d = z * d * prod_list (map fst ds)" .
    have "(d - 1) * z + z = z * d"
      using d by (cases d) simp_all
    with i s a show ?thesis
      by (simp add: max_offset_def)
  qed
qed

lemma max_offset_rev: "max_offset (rev ds) = max_offset ds"
  by (simp add: max_offset_def rev_map [symmetric])



lemma contiguous_layout:
  assumes w: "well_formed x" and c: "contiguous x" and p: "1 < numel x"
  shows "(chunks (rev (zip (shape x) (strides x))) = [(numel x, 1)]
          \<or> (\<exists>s. s \<noteq> 1 \<and> chunks (rev (zip (shape x) (strides x))) = [(1, s), (numel x, 1)]))
         \<and> offset x + numel x \<le> length (elems x)"
proof -
  let ?ds = "rev (zip (shape x) (strides x))"
  have len: "length (strides x) = length (shape x)"
    using w by (simp add: well_formed_def)
  have q: "prod_list (map fst ?ds) = numel x"
    using len by (simp add: numel_def rev_map [symmetric])
  have cf: "contig_from 1 ?ds"
    using c p by (simp add: contiguous_def)
  have "max_offset ?ds + 1 = 1 * prod_list (map fst ?ds)"
    using p q by (intro max_offset_contig [OF cf]) simp
  then have "max_offset (zip (shape x) (strides x)) + 1 = numel x"
    using q by (simp add: max_offset_rev)
  moreover have "offset x + max_offset (zip (shape x) (strides x)) < length (elems x)"
    using w p by (simp add: well_formed_def)
  ultimately have "offset x + numel x \<le> length (elems x)"
    by simp
  moreover have "1 < prod_list (map fst ?ds)"
    using p q by simp
  from chunks_contig [OF cf this]
  have "chunks ?ds = [(numel x, 1)] \<or> (\<exists>s. s \<noteq> 1 \<and> chunks ?ds = [(1, s), (numel x, 1)])"
    unfolding q .
  ultimately show ?thesis
    by blast
qed

section \<open>The two views of \<open>forward\<close>\<close>

lemma take_view_images:
  assumes "0 < n"
  shows "take_view (n * 1024) 1 1 [32, 32, 1, n] = (n * 1024, [1, 32, 1024, 1024], [])"
proof -
  have "1024 < n * 1024 \<or> n = 1"
    using assms by (cases n) auto
  then show ?thesis
    using assms by auto
qed

lemma view_strides_images:
  assumes "0 < n"
    and "cs = [(n * 1024, 1)] \<or> (\<exists>s. s \<noteq> 1 \<and> cs = [(1, s), (n * 1024, 1)])"
  shows "view_strides cs [32, 32, 1, n] = Some [1, 32, 1024, 1024]"
  using assms(2) take_view_images [OF assms(1)] by auto

lemma take_view_features:
  assumes "0 < n"
  shows "take_view (n * 96) 1 1 [96, n] = (n * 96, [1, 96], [])"
proof -
  have "96 < n * 96 \<or> n = 1"
    using assms by (cases n) auto
  then show ?thesis
    using assms by auto
qed

lemma view_strides_features:
  assumes "0 < n"
    and "cs = [(n * 96, 1)] \<or> (\<exists>s. s \<noteq> 1 \<and> cs = [(1, s), (n * 96, 1)])"
  shows "view_strides cs [96, n] = Some [1, 96]"
  using assms(2) take_view_features [OF assms(1)] by auto

text \<open>A view of a tensor without elements always succeeds.\<close>

lemma view_empty:
  assumes w: "well_formed x" and z: "numel x = 0" and k: "0 < prod_list dims"
  shows "\<exists>st. view dims x = Inr (x\<lparr>shape := 0 # dims, strides := st\<rparr>)
           \<and> well_formed (x\<lparr>shape := 0 # dims, strides := st\<rparr>)"
proof -
  let ?st = "if shape x = 0 # dims then strides x else zero_numel_strides (0 # dims)"
  have zl: "length (zero_numel_strides s) = length s" for s
    by (induction s rule: zero_numel_strides.induct) (auto split: list.splits)
  have l: "length ?st = length (0 # dims)"
    using w zl [of "0 # dims"] by (auto simp: well_formed_def)
  have s: "shape x \<noteq> []"
    using z by (auto simp: numel_def)
  have "view dims x = Inr (x\<lparr>shape := 0 # dims, strides := ?st\<rparr>)"
    using w z s k by (simp add: view_def compute_stride_def numel_def)
  moreover have "well_formed (x\<lparr>shape := 0 # dims, strides := ?st\<rparr>)"
    using l by (simp add: well_formed_def numel_def)
  ultimately show ?thesis by blast
qed

lemma view_images:
  assumes w: "well_formed x" and c: "contiguous x" and n: "numel x = n * 1024"
  shows "\<exists>st. view [1, 32, 32] x = Inr (x\<lparr>shape := [n, 1, 32, 32], strides := st\<rparr>)
           \<and> well_formed (x\<lparr>shape := [n, 1, 32, 32], strides := st\<rparr>)"
proof (cases "n = 0")
  case True
  with view_empty [OF w, of "[1, 32, 32]"] n show ?thesis
    by simp
next
  case False
  then have n0: "0 < n" and n1: "1 < numel x"
    using n by simp_all
  from contiguous_layout [OF w c n1]
  have ch: "chunks (rev (zip (shape x) (strides x))) = [(n * 1024, 1)]
            \<or> (\<exists>s. s \<noteq> 1 \<and> chunks (rev (zip (shape x) (strides x))) = [(1, s), (n * 1024, 1)])"
    and sz: "offset x + n * 1024 \<le> length (elems x)"
    unfolding n by simp_all
  have "view_strides (chunks (rev (zip (shape x) (strides x)))) [32, 32, 1, n] =
          Some [1, 32, 1024, 1024]"
    by (rule view_strides_images [OF n0 ch])
  then have "compute_stride (shape x) (strides x) [n, 1, 32, 32] = Some [1024, 1024, 32, 1]"
    using n n0 by (auto simp: compute_stride_def numel_def)
  then have v: "view [1, 32, 32] x =
                  Inr (x\<lparr>shape := [n, 1, 32, 32], strides := [1024, 1024, 32, 1]\<rparr>)"
    using w n by (simp add: view_def)
  have "max_offset (zip [n, 1, 32, 32] [1024, 1024, 32, 1]) + 1 = n * 1024"
    using n0 by (cases n) (simp_all add: max_offset_def)
  with sz have "well_formed (x\<lparr>shape := [n, 1, 32, 32], strides := [1024, 1024, 32, 1]\<rparr>)"
    by (simp add: well_formed_def)
  with v show ?thesis by blast
qed

lemma view_features:
  assumes w: "well_formed x" and c: "contiguous x" and n: "numel x = n * 96"
  shows "\<exists>st. view [6 * 4 * 4] x = Inr (x\<lparr>shape := [n, 96], strides := st\<rparr>)
           \<and> well_formed (x\<lparr>shape := [n, 96], strides := st\<rparr>)"
proof (cases "n = 0")
  case True
  with view_empty [OF w, of "[6 * 4 * 4]"] n show ?thesis
    by simp
next
  case False
  then have n0: "0 < n" and n1: "1 < numel x"
    using n by simp_all
  from contiguous_layout [OF w c n1]
  have ch: "chunks (rev (zip (shape x) (strides x))) = [(n * 96, 1)]
            \<or> (\<exists>s. s \<noteq> 1 \<and> chunks (rev (zip (shape x) (strides x))) = [(1, s), (n * 96, 1)])"
    and sz: "offset x + n * 96 \<le> length (elems x)"
    unfolding n by simp_all
  have "view_strides (chunks (rev (zip (shape x) (strides x)))) [96, n] = Some [1, 96]"
    by (rule view_strides_features [OF n0 ch])
  then have "compute_stride (shape x) (strides x) [n, 96] = Some [96, 1]"
    using n n0 by (auto simp: compute_stride_def numel_def)
  then have v: "view [6 * 4 * 4] x = Inr (x\<lparr>shape := [n, 96], strides := [96, 1]\<rparr>)"
    using w n by (simp add: view_def)
  have "max_offset (zip [n, 96] [96, 1]) + 1 = n * 96"
    using n0 by (cases n) (simp_all add: max_offset_def)
  with sz have "well_formed (x\<lparr>shape := [n, 96], strides := [96, 1]\<rparr>)"
    by (simp add: well_formed_def)
  with v show ?thesis by blast
qed

section \<open>Shapes through the network\<close>

lemma conv1_ok:
  assumes "valid_parameters w1 b1 w2 b2" and "well_formed t" and "dtype t = Float32"
    and "device t = CPU" and "shape t = [n, 1, 32, 32]"
  shows "conv2d (conv1 ((CustomCNN w1 b1 w2 b2)\<lparr>training := tr\<rparr>)) t =
           Inr (fresh [n, 6, 32, 32] Float32 CPU
                  (conv2d_elems (conv1 (CustomCNN w1 b1 w2 b2)) n 1 32 32 (logical t)))"
  using assms
  by (simp add: conv2d_def CustomCNN_def valid_parameters_def conv_out_def Let_def)

lemma pool_ok:
  assumes "well_formed t" and "dtype t = Float32" and "device t = CPU"
    and "shape t = [n, 6, 32, 32]"
  shows "max_pool2d (pool ((CustomCNN w1 b1 w2 b2)\<lparr>training := tr\<rparr>)) t =
           Inr (fresh [n, 6, 4, 4] Float32 CPU
                  (max_pool2d_elems (pool (CustomCNN w1 b1 w2 b2)) n 6 32 32 (logical t)))"
  using assms
  by (simp add: max_pool2d_def CustomCNN_def pool_out_def Let_def)

lemma fc_ok:
  assumes "valid_parameters w1 b1 w2 b2" and "well_formed t" and "dtype t = Float32"
    and "device t = CPU" and "shape t = [n, 96]"
  shows "linear (fc ((CustomCNN w1 b1 w2 b2)\<lparr>training := tr\<rparr>)) t =
           Inr (fresh [n, 8] Float32 CPU
                  (linear_elems (fc (CustomCNN w1 b1 w2 b2)) n (logical t)))"
  using assms
  by (simp add: linear_def CustomCNN_def valid_parameters_def)

lemma relu_fresh: "relu (fresh s dt dv vs) = fresh s dt dv (map relu_scalar vs)"
  by (simp add: relu_def fresh_def)

lemma contiguous_fresh: "contiguous (fresh s dt dv vs)"
proof -
  have "contig_from z (rev (zip s (map (\<lambda>r. r * z) (row_major s))))" if "0 < prod_list s" for z
    using that
  proof (induction s arbitrary: z rule: rev_induct)
    case Nil
    then show ?case by simp
  next
    case (snoc d s)
    have r: "row_major (s @ [d]) = map (\<lambda>r. r * d) (row_major s) @ [1]" for s
      by (induction s) simp_all
    from snoc.prems have "0 < prod_list s"
      by simp
    from snoc.IH [OF this, of "z * d"] show ?case
      by (auto simp: r length_row_major comp_def mult_ac)
  qed
  from this [of 1] show ?thesis
    by (auto simp: contiguous_def fresh_def numel_def)
qed

text \<open>
  On a contiguous tensor that has the element type and the device of the parameters
  and holds \<open>n\<close> images of 1024 elements, \<open>forward\<close> returns a fresh tensor of shape
  \<open>(n, 8)\<close>: the rectified output of the linear layer.
\<close>

lemma forward_ok:
  assumes p: "valid_parameters w1 b1 w2 b2" and w: "well_formed x" and c: "contiguous x"
    and dt: "dtype x = Float32" and dv: "device x = CPU" and n: "numel x = n * 1024"
  shows "\<exists>vs. forward ((CustomCNN w1 b1 w2 b2)\<lparr>training := tr\<rparr>) x =
           Inr (fresh [n, 8] Float32 CPU
                  (map relu_scalar (linear_elems (fc (CustomCNN w1 b1 w2 b2)) n vs)))"
proof -
  let ?m = "(CustomCNN w1 b1 w2 b2)\<lparr>training := tr\<rparr>"
  from view_images [OF w c n] obtain st where
    v1: "view [1, 32, 32] x = Inr (x\<lparr>shape := [n, 1, 32, 32], strides := st\<rparr>)" and
    w1: "well_formed (x\<lparr>shape := [n, 1, 32, 32], strides := st\<rparr>)"
    by blast
  let ?x1 = "x\<lparr>shape := [n, 1, 32, 32], strides := st\<rparr>"
  let ?c = "conv2d_elems (conv1 (CustomCNN w1 b1 w2 b2)) n 1 32 32 (logical ?x1)"
  have cv: "conv2d (conv1 ?m) ?x1 = Inr (fresh [n, 6, 32, 32] Float32 CPU ?c)"
    using conv1_ok [OF p w1, of n tr] dt dv by simp
  let ?r = "fresh [n, 6, 32, 32] Float32 CPU (map relu_scalar ?c)"
  have wr: "well_formed ?r"
    by (rule fresh_well_formed)
      (simp add: length_conv2d_elems CustomCNN_def conv_out_def)
  let ?q = "max_pool2d_elems (pool (CustomCNN w1 b1 w2 b2)) n 6 32 32 (logical ?r)"
  have pl: "max_pool2d (pool ?m) ?r = Inr (fresh [n, 6, 4, 4] Float32 CPU ?q)"
    using pool_ok [OF wr, of n tr w1 b1 w2 b2] by (simp add: fresh_def)
  let ?f = "fresh [n, 6, 4, 4] Float32 CPU ?q"
  have wf: "well_formed ?f"
    by (rule fresh_well_formed)
      (simp add: length_max_pool2d_elems CustomCNN_def pool_out_def)
  have nf: "numel ?f = n * 96"
    by (simp add: numel_def fresh_def)
  from view_features [OF wf contiguous_fresh nf] obtain st2 where
    v2: "view [6 * 4 * 4] ?f = Inr (?f\<lparr>shape := [n, 96], strides := st2\<rparr>)" and
    w2: "well_formed (?f\<lparr>shape := [n, 96], strides := st2\<rparr>)"
    by blast
  let ?x2 = "?f\<lparr>shape := [n, 96], strides := st2\<rparr>"
  have li: "linear (fc ?m) ?x2 =
              Inr (fresh [n, 8] Float32 CPU
                     (linear_elems (fc (CustomCNN w1 b1 w2 b2)) n (logical ?x2)))"
    using fc_ok [OF p w2, of n tr] by (simp add: fresh_def)
  have "forward ?m x =
          Inr (fresh [n, 8] Float32 CPU
                 (map relu_scalar (linear_elems (fc (CustomCNN w1 b1 w2 b2)) n (logical ?x2))))"
    unfolding forward_def
    by (simp only: v1 and_then_def sum.case cv relu_fresh pl v2 li)
  then show ?thesis
    by blast
qed




section \<open>The values of the embedding\<close>

lemma relu_scalar_nonneg_or_nan: "nonneg_or_nan (relu_scalar v)"
  by (cases v) (simp_all add: nonneg_or_nan_def)

lemma relu_elems_nonneg_or_nan: "list_all nonneg_or_nan (elems (relu t))"
  by (simp add: relu_def list_all_iff relu_scalar_nonneg_or_nan)

lemma forward_is_relu:
  assumes "forward m x = Inr y"
  shows "\<exists>l. y = relu l"
  using assms
  by (auto simp: forward_def and_then_def split: sum.splits)

lemma fadd_nan: "fadd v NaN = NaN"
  by (cases v) simp_all

lemma linear_at_nan_bias:
  assumes "lin_bias L ! out = NaN"
  shows "linear_at L vs b out = NaN"
  using assms by (simp add: linear_at_def fadd_nan)

lemma linear_elems_nan_bias:
  assumes "out_features L = 8" and "lin_bias L = replicate 8 NaN"
  shows "linear_elems L 1 vs = replicate 8 NaN"
proof -
  have "map (\<lambda>out. linear_at L vs 0 out) [0..<8] = map (\<lambda>out. NaN) [0..<8]"
    by (rule map_cong) (simp_all add: linear_at_nan_bias assms)
  then show ?thesis
    by (simp add: linear_elems_def assms map_replicate_const)
qed

text \<open>
  A network whose linear layer has a NaN bias, on one image of zeros: every component
  of the embedding is NaN.
\<close>

lemma forward_nan_bias:
  "forward
     (CustomCNN (replicate 150 (Fin 0)) (replicate 6 (Fin 0)) (replicate 768 (Fin 0))
        (replicate 8 NaN))
     \<lparr>shape = [1, 32, 32], strides = [1024, 32, 1], offset = 0, dtype = Float32,
      device = CPU, elems = replicate 1024 (Fin 0)\<rparr>
   = Inr \<lparr>shape = [1, 8], strides = [8, 1], offset = 0, dtype = Float32, device = CPU,
           elems = replicate 8 NaN\<rparr>"
proof -
  let ?x = "\<lparr>shape = [1, 32, 32], strides = [1024, 32, 1], offset = 0, dtype = Float32,
      device = CPU, elems = replicate 1024 (Fin 0)\<rparr>"
  have p: "valid_parameters (replicate 150 (Fin 0)) (replicate 6 (Fin 0))
             (replicate 768 (Fin 0)) (replicate 8 NaN)"
    by (simp add: valid_parameters_def)
  have w: "well_formed ?x"
    by (simp add: well_formed_def numel_def max_offset_def)
  have c: "contiguous ?x"
    by (simp add: contiguous_def)
  have dt: "dtype ?x = Float32" and dv: "device ?x = CPU"
    by simp_all
  have n: "numel ?x = 1 * 1024"
    by (simp add: numel_def)
  have l: "linear_elems
             (fc (CustomCNN (replicate 150 (Fin 0)) (replicate 6 (Fin 0))
                    (replicate 768 (Fin 0)) (replicate 8 NaN))) 1 vs = replicate 8 NaN" for vs
    by (rule linear_elems_nan_bias) (simp_all add: CustomCNN_def)
  have t: "(CustomCNN w1 b1 w2 b2)\<lparr>training := True\<rparr> = CustomCNN w1 b1 w2 b2"
    for w1 b1 w2 b2
    by (simp add: CustomCNN_def)
  have r: "map relu_scalar (replicate 8 NaN) = replicate 8 NaN"
    by simp
  have f: "fresh [1, 8] Float32 CPU (replicate 8 NaN) =
             \<lparr>shape = [1, 8], strides = [8, 1], offset = 0, dtype = Float32, device = CPU,
              elems = replicate 8 NaN\<rparr>"
    by (simp add: fresh_def)
  show ?thesis
    using forward_ok [OF p w c dt dv n, of True] unfolding l t r f by blast
qed

text \<open>
  Claim C9, as stated: every component of the returned embedding is non-negative, for
  every input and every parameter setting. With a NaN in the bias of the linear layer
  the components are NaN, and NaN is not non-negative.
\<close>

theorem embedding_nonneg_counterexample:
  "forward
     (CustomCNN (replicate 150 (Fin 0)) (replicate 6 (Fin 0)) (replicate 768 (Fin 0))
        (replicate 8 NaN))
     \<lparr>shape = [1, 32, 32], strides = [1024, 32, 1], offset = 0, dtype = Float32,
      device = CPU, elems = replicate 1024 (Fin 0)\<rparr>
   = Inr \<lparr>shape = [1, 8], strides = [8, 1], offset = 0, dtype = Float32, device = CPU,
           elems = replicate 8 NaN\<rparr>
   \<and> \<not> list_all nonneg (elems \<lparr>shape = [1, 8], strides = [8, 1], offset = 0, dtype = Float32, device = CPU,
           elems = replicate 8 NaN\<rparr>)"
proof (intro conjI)
  show "forward
     (CustomCNN (replicate 150 (Fin 0)) (replicate 6 (Fin 0)) (replicate 768 (Fin 0))
        (replicate 8 NaN))
     \<lparr>shape = [1, 32, 32], strides = [1024, 32, 1], offset = 0, dtype = Float32,
      device = CPU, elems = replicate 1024 (Fin 0)\<rparr>
   = Inr \<lparr>shape = [1, 8], strides = [8, 1], offset = 0, dtype = Float32, device = CPU,
           elems = replicate 8 NaN\<rparr>"
    by (rule forward_nan_bias)
  show "\<not> list_all nonneg (elems \<lparr>shape = [1, 8], strides = [8, 1], offset = 0, dtype = Float32, device = CPU,
           elems = replicate 8 NaN\<rparr>)"
    by (simp add: list_all_iff)
qed

text \<open>
  Claim C9, amended. The last operation of \<open>forward\<close> is \<open>relu\<close>, so every component of
  the returned embedding is non-negative or NaN, for every input and every parameter
  setting.
\<close>

theorem embedding_nonneg_or_nan:
  assumes "forward m x = Inr y"
  shows "list_all nonneg_or_nan (elems y)"
  using forward_is_relu [OF assms] relu_elems_nonneg_or_nan by auto

theorem embedding_nonneg_or_nan_witness:
  "forward
     (CustomCNN (replicate 150 (Fin 0)) (replicate 6 (Fin 0)) (replicate 768 (Fin 0))
        (replicate 8 NaN))
     \<lparr>shape = [1, 32, 32], strides = [1024, 32, 1], offset = 0, dtype = Float32,
      device = CPU, elems = replicate 1024 (Fin 0)\<rparr>
   = Inr \<lparr>shape = [1, 8], strides = [8, 1], offset = 0, dtype = Float32, device = CPU,
           elems = replicate 8 NaN\<rparr>
   \<and> list_all nonneg_or_nan (elems \<lparr>shape = [1, 8], strides = [8, 1], offset = 0, dtype = Float32, device = CPU,
           elems = replicate 8 NaN\<rparr>)"
proof (intro conjI)
  show "forward
     (CustomCNN (replicate 150 (Fin 0)) (replicate 6 (Fin 0)) (replicate 768 (Fin 0))
        (replicate 8 NaN))
     \<lparr>shape = [1, 32, 32], strides = [1024, 32, 1], offset = 0, dtype = Float32,
      device = CPU, elems = replicate 1024 (Fin 0)\<rparr>
   = Inr \<lparr>shape = [1, 8], strides = [8, 1], offset = 0, dtype = Float32, device = CPU,
           elems = replicate 8 NaN\<rparr>"
    by (rule forward_nan_bias)
  show "list_all nonneg_or_nan (elems \<lparr>shape = [1, 8], strides = [8, 1], offset = 0, dtype = Float32, device = CPU,
           elems = replicate 8 NaN\<rparr>)"
    by (rule embedding_nonneg_or_nan [OF forward_nan_bias])
qed

section \<open>What the fragments refer to\<close>

lemma metadata_cells:
  "jlookup ''metadata'' cell_1 = Some (JObject [])"
  "jlookup ''metadata'' cell_2 = Some (JObject [])"
  "jlookup ''metadata'' cell_3 = Some (JObject [])"
  "jlookup ''metadata'' cell_4 = Some (JObject [])"
  "jlookup ''metadata'' cell_5 = Some (JObject [])"
  "jlookup ''metadata'' cell_6 = Some (JObject [])"
  "jlookup ''metadata'' cell_7 = Some (JObject [])"
  "jlookup ''metadata'' cell_8 = Some (JObject [])"
  by (simp_all add: cell_defs)

lemma calls_notebook:
  "calls_of (code_statements notebook) =
     [''CNNEmbedding'', ''posterior_nn'', ''NPE'',
      ''super'', ''.__init__'', ''nn.Conv2d'', ''nn.MaxPool2d'', ''nn.Linear'',
      ''x.view'', ''self.pool'', ''F.relu'', ''self.conv1'', ''x.view'', ''F.relu'', ''self.fc'',
      ''CustomCNN'', ''posterior_nn'', ''NPE'']"
  by (simp add: code_statements_notebook calls_of_def calls_def is_import_def
      is_header_def python_keywords_def)

lemma referenced_notebook:
  "referenced (code_statements notebook) =
     [''posterior_nn'', ''FCEmbedding'', ''CNNEmbedding'', ''PermutationInvariantEmbedding'',
      ''CustomCNN'',
      ''CNNEmbedding'', ''posterior_nn'', ''NPE'',
      ''super'', ''.__init__'', ''nn.Conv2d'', ''nn.MaxPool2d'', ''nn.Linear'',
      ''x.view'', ''self.pool'', ''F.relu'', ''self.conv1'', ''x.view'', ''F.relu'', ''self.fc'',
      ''CustomCNN'', ''posterior_nn'', ''NPE'']"
  by (simp add: referenced_def imports_notebook classes_notebook calls_notebook)

text \<open>
  Claim C4, as stated: the fragments reference exactly the advertised call sites. They
  do not. The fragments call \<^verbatim>\<open>nn.Conv2d\<close>, \<^verbatim>\<open>nn.MaxPool2d\<close>, \<^verbatim>\<open>nn.Linear\<close> and \<^verbatim>\<open>F.relu\<close>,
  which are not among the advertised names, and two of the advertised names,
  \<^verbatim>\<open>FCEmbedding\<close> and \<^verbatim>\<open>PermutationInvariantEmbedding\<close>, are imported but called nowhere.
\<close>

theorem fragments_reference_counterexample:
  "''nn.Conv2d'' \<in> set (referenced (code_statements notebook))
   \<and> ''nn.Conv2d'' \<notin> set advertised
   \<and> ''nn.MaxPool2d'' \<in> set (referenced (code_statements notebook))
   \<and> ''nn.MaxPool2d'' \<notin> set advertised
   \<and> ''nn.Linear'' \<in> set (referenced (code_statements notebook))
   \<and> ''nn.Linear'' \<notin> set advertised
   \<and> ''F.relu'' \<in> set (referenced (code_statements notebook))
   \<and> ''F.relu'' \<notin> set advertised
   \<and> set (referenced (code_statements notebook)) \<noteq> set advertised
   \<and> ''FCEmbedding'' \<in> set advertised
   \<and> ''FCEmbedding'' \<notin> set (calls_of (code_statements notebook))
   \<and> ''PermutationInvariantEmbedding'' \<in> set advertised
   \<and> ''PermutationInvariantEmbedding'' \<notin> set (calls_of (code_statements notebook))"
proof -
  have "''nn.Conv2d'' \<in> set (referenced (code_statements notebook))"
    and "''nn.Conv2d'' \<notin> set advertised"
    by (simp_all add: referenced_notebook advertised_def)
  then have "set (referenced (code_statements notebook)) \<noteq> set advertised"
    by blast
  then show ?thesis
    by (simp add: referenced_notebook calls_notebook advertised_def)
qed

text \<open>
  Claim C4, amended. The notebook exposes markdown cells (a cell type, empty metadata and
  the text) and fragments that use a library. The fragments import \<^verbatim>\<open>posterior_nn\<close>,
  \<^verbatim>\<open>FCEmbedding\<close>, \<^verbatim>\<open>CNNEmbedding\<close> and \<^verbatim>\<open>PermutationInvariantEmbedding\<close>, and define one
  class, \<^verbatim>\<open>CustomCNN\<close>, which extends \<^verbatim>\<open>nn.Module\<close>. Their call sites are, in the order of
  the text: \<^verbatim>\<open>CNNEmbedding\<close>, \<^verbatim>\<open>posterior_nn\<close>, \<^verbatim>\<open>NPE\<close>, \<^verbatim>\<open>CustomCNN\<close>, \<^verbatim>\<open>posterior_nn\<close> and
  \<^verbatim>\<open>NPE\<close> outside the body of the class, and inside it \<^verbatim>\<open>super().__init__\<close>, \<^verbatim>\<open>nn.Conv2d\<close>,
  \<^verbatim>\<open>nn.MaxPool2d\<close>, \<^verbatim>\<open>nn.Linear\<close>, \<^verbatim>\<open>x.view\<close>, \<^verbatim>\<open>self.pool\<close>, \<^verbatim>\<open>F.relu\<close>, \<^verbatim>\<open>self.conv1\<close>
  and \<^verbatim>\<open>self.fc\<close>. So the names the fragments refer to, by import, class definition or
  call, are the six advertised names together with the names called inside the body of
  \<^verbatim>\<open>CustomCNN\<close>; outside that body they are the six advertised names and no other.
\<close>

theorem fragments_reference_advertised_api:
  "map cell_type (cells notebook) = replicate 8 ''markdown''
   \<and> map jkeys (cells notebook) = replicate 8 [''cell_type'', ''metadata'', ''source'']
   \<and> map (jlookup ''metadata'') (cells notebook) = replicate 8 (Some (JObject []))
   \<and> imports_of (code_statements notebook) =
       [''posterior_nn'', ''FCEmbedding'', ''CNNEmbedding'', ''PermutationInvariantEmbedding'']
   \<and> classes_of (code_statements notebook) = [(''CustomCNN'', ''nn.Module'')]
   \<and> calls_of (code_statements notebook) =
       [''CNNEmbedding'', ''posterior_nn'', ''NPE'',
        ''super'', ''.__init__'', ''nn.Conv2d'', ''nn.MaxPool2d'', ''nn.Linear'',
        ''x.view'', ''self.pool'', ''F.relu'', ''self.conv1'', ''x.view'', ''F.relu'', ''self.fc'',
        ''CustomCNN'', ''posterior_nn'', ''NPE'']
   \<and> calls_of (top_level (code_statements notebook)) =
       [''CNNEmbedding'', ''posterior_nn'', ''NPE'', ''CustomCNN'', ''posterior_nn'', ''NPE'']
   \<and> calls_of (nested (code_statements notebook)) =
       [''super'', ''.__init__'', ''nn.Conv2d'', ''nn.MaxPool2d'', ''nn.Linear'',
        ''x.view'', ''self.pool'', ''F.relu'', ''self.conv1'', ''x.view'', ''F.relu'', ''self.fc'']
   \<and> set (referenced (code_statements notebook)) =
       set advertised \<union>
       set [''super'', ''.__init__'', ''nn.Conv2d'', ''nn.MaxPool2d'', ''nn.Linear'',
            ''x.view'', ''self.pool'', ''F.relu'', ''self.conv1'', ''self.fc'']
   \<and> set (imports_of (code_statements notebook)
          @ map fst (classes_of (code_statements notebook))
          @ calls_of (top_level (code_statements notebook))) = set advertised"
proof -
  have a: "set (referenced (code_statements notebook)) =
       set advertised \<union>
       set [''super'', ''.__init__'', ''nn.Conv2d'', ''nn.MaxPool2d'', ''nn.Linear'',
            ''x.view'', ''self.pool'', ''F.relu'', ''self.conv1'', ''self.fc'']"
    unfolding referenced_notebook advertised_def by auto
  have b: "set (imports_of (code_statements notebook)
          @ map fst (classes_of (code_statements notebook))
          @ calls_of (top_level (code_statements notebook))) = set advertised"
    unfolding imports_notebook classes_notebook top_level_calls_notebook advertised_def by auto
  have c: "map cell_type (cells notebook) = replicate 8 ''markdown''
   \<and> map jkeys (cells notebook) = replicate 8 [''cell_type'', ''metadata'', ''source'']
   \<and> map (jlookup ''metadata'') (cells notebook) = replicate 8 (Some (JObject []))"
    by (simp add: cells_notebook cell_type_cells jkeys_cells metadata_cells eval_nat_numeral)
  show ?thesis
    using a b c
    by (simp only: imports_notebook classes_notebook calls_notebook top_level_calls_notebook
        nested_calls_notebook simp_thms)
qed

section \<open>Concurrency and resources\<close>

lemma concurrency_patterns:
  "map ci_pattern [''async'', ''await'', ''thread'', ''concurrent'', ''multiprocess'', ''lock'',
     ''acquire'', ''open''] =
   [zip ''async'' ''ASYNC'', zip ''await'' ''AWAIT'', zip ''thread'' ''THREAD'',
    zip ''concurrent'' ''CONCURRENT'', zip ''multiprocess'' ''MULTIPROCESS'',
    zip ''lock'' ''LOCK'', zip ''acquire'' ''ACQUIRE'', zip ''open'' ''OPEN'']"
  by (simp add: ci_pattern_def lower_char_def upper_char_def)

lemma no_concurrency_words:
  "lines_mentioning [''async'', ''await'', ''thread'', ''concurrent'', ''multiprocess'', ''lock'',
     ''acquire'', ''open''] file_lines = []"
  unfolding lines_mentioning_def concurrency_patterns file_lines_def
  apply (simp only: append.simps backslash_def zip.simps list.case)
  apply (simp only: search_simps cong: search_congs)
  done

lemma no_with_statement:
  "filter (\<lambda>w. w \<in> set [''with'', ''async'', ''await''])
     (code_words (code_statements notebook)) = []"
  by (simp add: code_statements_notebook code_words_def)

lemma with_pattern: "map ci_pattern [''with''] = [zip ''with'' ''WITH'']"
  by (simp add: ci_pattern_def lower_char_def upper_char_def)

text \<open>
  The word \<^verbatim>\<open>with\<close> stands in one line of the file, line 54: a comment of the first
  fragment.
\<close>

lemma with_in_one_line: "lines_mentioning [''with''] file_lines = [file_lines ! 53]"
  unfolding lines_mentioning_def with_pattern file_lines_def
  apply (simp only: append.simps backslash_def zip.simps list.case)
  apply (simp only: search_simps cong: search_congs)
  apply simp
  done

text \<open>
  Claim C8. Nothing concurrent, asynchronous or resource-managed is in the notebook: no
  line of the file contains \<^verbatim>\<open>async\<close>, \<^verbatim>\<open>await\<close>, \<^verbatim>\<open>thread\<close>, \<^verbatim>\<open>concurrent\<close>,
  \<^verbatim>\<open>multiprocess\<close>, \<^verbatim>\<open>lock\<close>, \<^verbatim>\<open>acquire\<close> or \<^verbatim>\<open>open\<close>, in any letter case; no statement
  of a code fragment uses the keywords \<^verbatim>\<open>with\<close>, \<^verbatim>\<open>async\<close> or \<^verbatim>\<open>await\<close> (the one
  \<^verbatim>\<open>with\<close> of the file is a word of a comment, in line 54); and no cell is a code cell.
\<close>

theorem no_concurrency_or_resources:
  "lines_mentioning [''async'', ''await'', ''thread'', ''concurrent'', ''multiprocess'', ''lock'',
     ''acquire'', ''open''] file_lines = []
   \<and> filter (\<lambda>w. w \<in> set [''with'', ''async'', ''await''])
       (code_words (code_statements notebook)) = []
   \<and> lines_mentioning [''with''] file_lines = [file_lines ! 53]
   \<and> code_cells notebook = []"
  by (simp only: no_concurrency_words no_with_statement with_in_one_line code_cells_def
      cells_notebook cell_type_cells filter.simps list.inject char.inject simp_thms if_False)

end
